theory Spec2Isabelle
  imports Main "HOL-Library.Word" "HOL-Library.Sublist"
begin

unbundle bit_operations_syntax

section \<open>Data model\<close>

text \<open>
  The program is one translation unit, \<^verbatim>\<open>main.cpp\<close>, written against the Vulkan C API.
  Vulkan handles are opaque pointers: a handle is a natural number and \<open>0\<close> is
  \<^verbatim>\<open>nullptr\<close> / \<^verbatim>\<open>VK_NULL_HANDLE\<close>. \<^verbatim>\<open>VkResult\<close> is a C enum, kept as its integer
  code; the program only ever compares it with \<^verbatim>\<open>VK_SUCCESS\<close>, so positive status codes
  count as failures exactly as negative error codes do. \<^verbatim>\<open>VkFlags\<close> is \<^verbatim>\<open>uint32_t\<close>.
  A \<^verbatim>\<open>uint32_t\<close> that is only used as an index or a count (never in wrapping arithmetic:
  the loop counters below stay under a \<^verbatim>\<open>uint32_t\<close> bound) is a \<open>nat\<close>.
\<close>

type_synonym u8 = "8 word"
type_synonym u32 = "32 word"
type_synonym handle = nat
type_synonym VkResult = int
type_synonym VkBool32 = u32
type_synonym VkFlags = u32

subsection \<open>Constants of \<^verbatim>\<open>vulkan_core.h\<close> used by the program\<close>

text \<open>
  The Vulkan header belongs to the Vulkan SDK, not to the repository. The values are
  the ones the Khronos header gives to the names the program uses.
\<close>

definition VK_SUCCESS :: VkResult where "VK_SUCCESS = 0"
definition VK_ERROR_OUT_OF_DEVICE_MEMORY :: VkResult where "VK_ERROR_OUT_OF_DEVICE_MEMORY = - 2"
definition VK_ERROR_INITIALIZATION_FAILED :: VkResult where "VK_ERROR_INITIALIZATION_FAILED = - 3"
definition VK_ERROR_EXTENSION_NOT_PRESENT :: VkResult where "VK_ERROR_EXTENSION_NOT_PRESENT = - 7"
definition VK_ERROR_UNKNOWN :: VkResult where "VK_ERROR_UNKNOWN = - 13"

definition VK_FALSE :: VkBool32 where "VK_FALSE = 0"

definition VK_QUEUE_GRAPHICS_BIT :: VkFlags where "VK_QUEUE_GRAPHICS_BIT = 0x1"
definition VK_QUEUE_COMPUTE_BIT :: VkFlags where "VK_QUEUE_COMPUTE_BIT = 0x2"
definition VK_QUEUE_TRANSFER_BIT :: VkFlags where "VK_QUEUE_TRANSFER_BIT = 0x4"
definition VK_QUEUE_SPARSE_BINDING_BIT :: VkFlags where "VK_QUEUE_SPARSE_BINDING_BIT = 0x8"

definition VK_DEBUG_UTILS_MESSAGE_SEVERITY_VERBOSE_BIT_EXT :: VkFlags where
  "VK_DEBUG_UTILS_MESSAGE_SEVERITY_VERBOSE_BIT_EXT = 0x1"
definition VK_DEBUG_UTILS_MESSAGE_SEVERITY_INFO_BIT_EXT :: VkFlags where
  "VK_DEBUG_UTILS_MESSAGE_SEVERITY_INFO_BIT_EXT = 0x10"
definition VK_DEBUG_UTILS_MESSAGE_SEVERITY_WARNING_BIT_EXT :: VkFlags where
  "VK_DEBUG_UTILS_MESSAGE_SEVERITY_WARNING_BIT_EXT = 0x100"
definition VK_DEBUG_UTILS_MESSAGE_SEVERITY_ERROR_BIT_EXT :: VkFlags where
  "VK_DEBUG_UTILS_MESSAGE_SEVERITY_ERROR_BIT_EXT = 0x1000"

definition VK_DEBUG_UTILS_MESSAGE_TYPE_GENERAL_BIT_EXT :: VkFlags where
  "VK_DEBUG_UTILS_MESSAGE_TYPE_GENERAL_BIT_EXT = 0x1"
definition VK_DEBUG_UTILS_MESSAGE_TYPE_VALIDATION_BIT_EXT :: VkFlags where
  "VK_DEBUG_UTILS_MESSAGE_TYPE_VALIDATION_BIT_EXT = 0x2"
definition VK_DEBUG_UTILS_MESSAGE_TYPE_PERFORMANCE_BIT_EXT :: VkFlags where
  "VK_DEBUG_UTILS_MESSAGE_TYPE_PERFORMANCE_BIT_EXT = 0x4"

definition VK_DEBUG_REPORT_INFORMATION_BIT_EXT :: VkFlags where
  "VK_DEBUG_REPORT_INFORMATION_BIT_EXT = 0x1"
definition VK_DEBUG_REPORT_WARNING_BIT_EXT :: VkFlags where
  "VK_DEBUG_REPORT_WARNING_BIT_EXT = 0x2"
definition VK_DEBUG_REPORT_PERFORMANCE_WARNING_BIT_EXT :: VkFlags where
  "VK_DEBUG_REPORT_PERFORMANCE_WARNING_BIT_EXT = 0x4"
definition VK_DEBUG_REPORT_ERROR_BIT_EXT :: VkFlags where
  "VK_DEBUG_REPORT_ERROR_BIT_EXT = 0x8"
definition VK_DEBUG_REPORT_DEBUG_BIT_EXT :: VkFlags where
  "VK_DEBUG_REPORT_DEBUG_BIT_EXT = 0x10"

definition VK_EXT_DEBUG_UTILS_EXTENSION_NAME :: string where
  "VK_EXT_DEBUG_UTILS_EXTENSION_NAME = ''VK_EXT_debug_utils''"
definition VK_EXT_DEBUG_REPORT_EXTENSION_NAME :: string where
  "VK_EXT_DEBUG_REPORT_EXTENSION_NAME = ''VK_EXT_debug_report''"

subsection \<open>File-scope constants of \<^verbatim>\<open>main.cpp\<close>\<close>

text \<open>
  \<^verbatim>\<open>#define SHOW_ONLY_DEBUG_PRINTF_EXT_MESSAGES true\<close> selects the filtered mode of both
  message sinks at compile time. The sinks below take the mode as their first argument, so
  that both settings of the macro can be talked about; the shipped program passes this one.
\<close>

definition SHOW_ONLY_DEBUG_PRINTF_EXT_MESSAGES :: bool where
  "SHOW_ONLY_DEBUG_PRINTF_EXT_MESSAGES = True"

definition shader_local_size_x :: nat where
  "shader_local_size_x = 512"

definition requiredInstanceLayers :: "string list" where
  "requiredInstanceLayers = [''VK_LAYER_KHRONOS_validation'']"

definition requiredInstanceExtensions :: "string list" where
  "requiredInstanceExtensions =
     [VK_EXT_DEBUG_UTILS_EXTENSION_NAME, VK_EXT_DEBUG_REPORT_EXTENSION_NAME]"

definition EXIT_FAILURE :: int where "EXIT_FAILURE = 1"

section \<open>The two message sinks\<close>

text \<open>
  What a sink writes to \<^verbatim>\<open>std::cout\<close> is the list of the operands of its \<^verbatim>\<open><<\<close> chain:
  a piece of text, an unsigned number (printed in decimal by the stream) or \<^verbatim>\<open>std::endl\<close>.
  A sink that returns before its first \<^verbatim>\<open><<\<close> writes the empty list.
\<close>

datatype cout_item = Str string | Num u32 | Endl

record VkDebugUtilsMessengerCallbackDataEXT =
  pMessage :: string

text \<open>The \<^verbatim>\<open>switch (messageSeverity)\<close> of the severity-channel sink.\<close>

definition severity_tag :: "VkFlags \<Rightarrow> string" where
  "severity_tag messageSeverity =
     (if messageSeverity = VK_DEBUG_UTILS_MESSAGE_SEVERITY_VERBOSE_BIT_EXT then ''[VERBOSE]''
      else if messageSeverity = VK_DEBUG_UTILS_MESSAGE_SEVERITY_INFO_BIT_EXT then ''[INFO]   ''
      else if messageSeverity = VK_DEBUG_UTILS_MESSAGE_SEVERITY_WARNING_BIT_EXT then ''[WARNING]''
      else if messageSeverity = VK_DEBUG_UTILS_MESSAGE_SEVERITY_ERROR_BIT_EXT then ''[ERROR]  ''
      else ''[UNKNOWN]'')"

definition VulkanDebugCallback ::
  "bool \<Rightarrow> VkFlags \<Rightarrow> VkFlags \<Rightarrow> VkDebugUtilsMessengerCallbackDataEXT \<Rightarrow> VkBool32 \<times> cout_item list"
where
  "VulkanDebugCallback show_only messageSeverity messageType pCallbackData =
     (if show_only \<and> VK_DEBUG_UTILS_MESSAGE_TYPE_VALIDATION_BIT_EXT \<noteq> messageType
      then (VK_FALSE, [])
      else (VK_FALSE,
            [Str ''[VULKAN DEBUG] : '', Str (severity_tag messageSeverity),
             Str '' : [FLAGS]: '', Num messageType, Str [CHR 0x09],
             Str (pMessage pCallbackData), Endl]))"

text \<open>
  \<^verbatim>\<open>std::string::find\<close> with a pattern: the position of the first occurrence, scanning from
  the left; \<open>None\<close> is \<^verbatim>\<open>std::string::npos\<close>.
\<close>

fun find_from :: "string \<Rightarrow> string \<Rightarrow> nat \<Rightarrow> nat option" where
  "find_from [] pat i = (if pat = [] then Some i else None)"
| "find_from (c # cs) pat i =
     (if prefix pat (c # cs) then Some i else find_from cs pat (Suc i))"

definition string_find :: "string \<Rightarrow> string \<Rightarrow> nat option" where
  "string_find s pat = find_from s pat 0"

definition VulkanReportCallback ::
  "bool \<Rightarrow> VkFlags \<Rightarrow> nat \<Rightarrow> nat \<Rightarrow> nat \<Rightarrow> int \<Rightarrow> string \<Rightarrow> string \<Rightarrow> VkBool32 \<times> cout_item list"
where
  "VulkanReportCallback show_only flags objectType object location messageCode pLayerPrefix pMessage' =
     (if show_only \<and> VK_DEBUG_REPORT_INFORMATION_BIT_EXT \<noteq> flags then (VK_FALSE, [])
      else if show_only \<and> string_find pMessage' ''Validation'' = None then (VK_FALSE, [])
      else (VK_FALSE,
            [Str ''[VULKAN REPORT]: [FLAGS]: '', Num flags, Str '' [LAYER]: '',
             Str pLayerPrefix, Str '' [MESSAGE]: '', Str pMessage', Endl]))"

section \<open>Reading a program binary\<close>

text \<open>
  \<^verbatim>\<open>readFile\<close> sizes a \<^verbatim>\<open>std::vector<uint32_t>\<close> with the file's size in bytes, so that the
  vector has one \<^emph>\<open>element\<close> per byte of the file, value-initialised to zero, and then reads
  the file's bytes over the start of the vector's storage through a \<^verbatim>\<open>char *\<close>. The storage
  of a vector of words is the concatenation of the words' four bytes, least significant
  first (the program targets little-endian hosts; \<^verbatim>\<open>_malloca\<close> is the MSVC runtime's).
  The file system is a map from names to contents; a name it does not map cannot be opened.
\<close>

datatype exn = runtime_error string

definition bytes_of_word :: "u32 \<Rightarrow> u8 list" where
  "bytes_of_word w = [ucast w, ucast (drop_bit 8 w), ucast (drop_bit 16 w), ucast (drop_bit 24 w)]"

definition word_of_bytes :: "u8 \<Rightarrow> u8 \<Rightarrow> u8 \<Rightarrow> u8 \<Rightarrow> u32" where
  "word_of_bytes a b c d =
     ucast a OR push_bit 8 (ucast b) OR push_bit 16 (ucast c) OR push_bit 24 (ucast d)"

definition storage_of :: "u32 list \<Rightarrow> u8 list" where
  "storage_of ws = concat (map bytes_of_word ws)"

fun words_of_storage :: "u8 list \<Rightarrow> u32 list" where
  "words_of_storage (a # b # c # d # bs) = word_of_bytes a b c d # words_of_storage bs"
| "words_of_storage _ = []"

text \<open>\<^verbatim>\<open>file.read(reinterpret_cast<char *>(buffer.data()), n)\<close> with the \<open>n\<close> bytes \<open>bs\<close>.\<close>

definition read_into :: "u32 list \<Rightarrow> u8 list \<Rightarrow> u32 list" where
  "read_into buffer bs = words_of_storage (bs @ drop (length bs) (storage_of buffer))"

definition readFile :: "(string \<rightharpoonup> u8 list) \<Rightarrow> string \<Rightarrow> exn + u32 list" where
  "readFile fs filename =
     (case fs filename of
        None \<Rightarrow> Inl (runtime_error ''Failed to open file!'')
      | Some content \<Rightarrow>
          (let fileSize = length content;
               buffer = replicate fileSize (0 :: u32)
           in Inr (read_into buffer content)))"

section \<open>Capability verification\<close>

text \<open>
  \<^verbatim>\<open>strcmp\<close> on two C strings: zero when they are equal, otherwise the sign of the
  difference of the first two bytes that differ, read as unsigned.
\<close>

fun strcmp :: "string \<Rightarrow> string \<Rightarrow> int" where
  "strcmp [] [] = 0"
| "strcmp [] (b # bs) = - 1"
| "strcmp (a # as) [] = 1"
| "strcmp (a # as) (b # bs) =
     (if a = b then strcmp as bs
      else if (of_char a :: nat) < of_char b then - 1 else 1)"

text \<open>The inner \<^verbatim>\<open>for\<close> loop: \<^verbatim>\<open>layerFound\<close> after scanning the available names.\<close>

fun layerFound :: "string \<Rightarrow> string list \<Rightarrow> bool" where
  "layerFound layerName [] = False"
| "layerFound layerName (layerProperties # rest) =
     (if strcmp layerName layerProperties = 0 then True else layerFound layerName rest)"

text \<open>The outer \<^verbatim>\<open>for\<close> loop over the requested names, with its early \<^verbatim>\<open>return false\<close>.\<close>

fun all_found :: "string list \<Rightarrow> string list \<Rightarrow> bool" where
  "all_found [] available = True"
| "all_found (layerName # rest) available =
     (if \<not> layerFound layerName available then False else all_found rest available)"

text \<open>
  Both verifiers take the requested names (the file-scope vectors above in the program) and
  the names the instance enumeration reports.
\<close>

definition VerifyInstanceLayers :: "string list \<Rightarrow> string list \<Rightarrow> bool" where
  "VerifyInstanceLayers requested availableLayers =
     (if length requested = 0 then True else all_found requested availableLayers)"

definition VerifyInstanceExtensions :: "string list \<Rightarrow> string list \<Rightarrow> bool" where
  "VerifyInstanceExtensions requested availableExtensions =
     (if length requested = 0 then True else all_found requested availableExtensions)"

section \<open>Queue-family selection\<close>

text \<open>
  \<^verbatim>\<open>GetBestComputeQueue\<close> asks the device for its queue families, allocates room for them
  with \<^verbatim>\<open>_malloca\<close> and scans them twice. Its inputs here are whether the allocation gave a
  non-null pointer and the \<^verbatim>\<open>queueFlags\<close> of the families in enumeration order; the count
  is the length of that list. The result is the \<^verbatim>\<open>VkResult\<close> and the value of the
  \<^verbatim>\<open>queueFamilyIndex\<close> reference afterwards, which is only written on success.
\<close>

definition maskedFlags :: "VkFlags \<Rightarrow> VkFlags" where
  "maskedFlags queueFlags =
     (NOT (VK_QUEUE_TRANSFER_BIT OR VK_QUEUE_SPARSE_BINDING_BIT)) AND queueFlags"

text \<open>The tests of the first and of the second loop on one family's flags.\<close>

definition compute_not_graphics :: "VkFlags \<Rightarrow> bool" where
  "compute_not_graphics queueFlags \<longleftrightarrow>
     VK_QUEUE_GRAPHICS_BIT AND maskedFlags queueFlags = 0
     \<and> VK_QUEUE_COMPUTE_BIT AND maskedFlags queueFlags \<noteq> 0"

definition compute_capable :: "VkFlags \<Rightarrow> bool" where
  "compute_capable queueFlags \<longleftrightarrow> VK_QUEUE_COMPUTE_BIT AND maskedFlags queueFlags \<noteq> 0"

function first_loop :: "VkFlags list \<Rightarrow> nat \<Rightarrow> nat option" where
  "first_loop queueFamilyProperties i =
     (if i < length queueFamilyProperties then
        (if compute_not_graphics (queueFamilyProperties ! i) then Some i
         else first_loop queueFamilyProperties (i + 1))
      else None)"
  by pat_completeness auto
termination
  by (relation "measure (\<lambda>(ps, i). length ps - i)") auto

function second_loop :: "VkFlags list \<Rightarrow> nat \<Rightarrow> nat option" where
  "second_loop queueFamilyProperties i =
     (if i < length queueFamilyProperties then
        (if compute_capable (queueFamilyProperties ! i) then Some i
         else second_loop queueFamilyProperties (i + 1))
      else None)"
  by pat_completeness auto
termination
  by (relation "measure (\<lambda>(ps, i). length ps - i)") auto

text \<open>
  The two loop equations recurse under an \<open>if\<close>; they are unfolded by hand, one step at a
  time, and kept out of the simplifier.
\<close>

declare first_loop.simps [simp del]
declare second_loop.simps [simp del]

definition GetBestComputeQueue :: "bool \<Rightarrow> VkFlags list \<Rightarrow> nat \<Rightarrow> VkResult \<times> nat" where
  "GetBestComputeQueue malloca_ok queueFamilyProperties queueFamilyIndex =
     (if \<not> malloca_ok then (VK_ERROR_OUT_OF_DEVICE_MEMORY, queueFamilyIndex)
      else case first_loop queueFamilyProperties 0 of
        Some i \<Rightarrow> (VK_SUCCESS, i)
      | None \<Rightarrow>
          (case second_loop queueFamilyProperties 0 of
             Some i \<Rightarrow> (VK_SUCCESS, i)
           | None \<Rightarrow> (VK_ERROR_INITIALIZATION_FAILED, queueFamilyIndex)))"

section \<open>The driver, and the calls the program makes to it\<close>

text \<open>
  Everything else the program does is a call into the Vulkan loader and driver. A run is
  recorded as the list of the calls made so far, oldest first, each with the arguments the
  program passes. The driver is an arbitrary function \<open>respond\<close> of that history: for the
  history ending in a call, the \<^verbatim>\<open>VkResult\<close> the call returns and the handle (or function
  pointer) it hands back. The program does not look at \<open>respond\<close> for a call whose C
  signature returns \<^verbatim>\<open>void\<close> and writes no handle: recording commands, freeing and
  destroying. A \<open>pfn_\<close> call is a call through the pointer that \<^verbatim>\<open>vkGetInstanceProcAddr\<close>
  returned for that name. The instance-level enumerations are read-only queries; what they
  report is a field of the world.
\<close>

datatype VkValidationFeatureEnableEXT = VK_VALIDATION_FEATURE_ENABLE_DEBUG_PRINTF_EXT

datatype call =
    vkCreateInstance "string list" "string list" "VkValidationFeatureEnableEXT list"
  | vkGetInstanceProcAddr handle string
  | pfn_vkCreateDebugUtilsMessengerEXT handle VkFlags VkFlags bool
  | pfn_vkDestroyDebugUtilsMessengerEXT handle handle
  | pfn_vkCreateDebugReportCallbackEXT handle VkFlags bool
  | pfn_vkDestroyDebugReportCallbackEXT handle handle
  | vkEnumeratePhysicalDevices handle bool
  | vkCreateDevice handle nat nat
  | vkCreateShaderModule handle nat "u32 list"
  | vkCreatePipelineLayout handle
  | vkCreateComputePipelines handle handle string handle
  | vkCreateCommandPool handle nat
  | vkAllocateCommandBuffers handle handle nat
  | vkBeginCommandBuffer handle
  | vkCmdBindPipeline handle handle
  | vkCmdDispatch handle u32 u32 u32
  | vkEndCommandBuffer handle
  | vkGetDeviceQueue handle nat nat
  | vkQueueSubmit handle handle
  | vkQueueWaitIdle handle
  | vkFreeCommandBuffers handle handle handle
  | vkDestroyCommandPool handle handle
  | vkDestroyPipeline handle handle
  | vkDestroyPipelineLayout handle handle
  | vkDestroyShaderModule handle handle
  | vkDestroyDevice handle
  | vkDestroyInstance handle

record world =
  respond :: "call list \<Rightarrow> VkResult \<times> handle"
  instance_layers :: "string list"
  instance_extensions :: "string list"
  physical_devices :: "handle list"
  queue_families :: "handle \<Rightarrow> VkFlags list"
  malloc_ok :: bool
  malloca_ok :: bool
  files :: "string \<rightharpoonup> u8 list"

text \<open>
  What the C++ leaves undefined and a run cannot survive: a call through a null function
  pointer, and a read through a null or empty array.
\<close>

datatype fault = NullFunctionCall | InvalidRead

subsection \<open>Instance and sinks\<close>

definition CreateHeadlessVulkanInstance :: "world \<Rightarrow> call list \<Rightarrow> VkResult \<times> handle \<times> call list" where
  "CreateHeadlessVulkanInstance w tr =
     (let tr1 = tr @ [vkCreateInstance requiredInstanceLayers requiredInstanceExtensions
                        [VK_VALIDATION_FEATURE_ENABLE_DEBUG_PRINTF_EXT]];
          (result, instance) = respond w tr1
      in (result, instance, tr1))"

text \<open>
  The out-parameter \<^verbatim>\<open>VkDebugUtilsMessengerEXT *debugMessenger\<close> is \<open>None\<close> when the pointer
  is null and \<open>Some h\<close> when it points at a slot holding \<open>h\<close>; the functions return the
  slot as they leave it.
\<close>

definition CreateDebugMessenger ::
  "world \<Rightarrow> call list \<Rightarrow> handle \<Rightarrow> handle option \<Rightarrow> VkResult \<times> handle option \<times> call list"
where
  "CreateDebugMessenger w tr instance debugMessenger =
     (if instance = 0 \<or> debugMessenger = None then (VK_ERROR_UNKNOWN, debugMessenger, tr)
      else
        let messageSeverity =
              VK_DEBUG_UTILS_MESSAGE_SEVERITY_VERBOSE_BIT_EXT OR VK_DEBUG_UTILS_MESSAGE_SEVERITY_INFO_BIT_EXT
              OR VK_DEBUG_UTILS_MESSAGE_SEVERITY_WARNING_BIT_EXT OR VK_DEBUG_UTILS_MESSAGE_SEVERITY_ERROR_BIT_EXT;
            messageType =
              VK_DEBUG_UTILS_MESSAGE_TYPE_GENERAL_BIT_EXT OR VK_DEBUG_UTILS_MESSAGE_TYPE_VALIDATION_BIT_EXT
              OR VK_DEBUG_UTILS_MESSAGE_TYPE_PERFORMANCE_BIT_EXT;
            tr1 = tr @ [vkGetInstanceProcAddr instance ''vkCreateDebugUtilsMessengerEXT''];
            function = snd (respond w tr1)
        in if function \<noteq> 0 then
             (let tr2 = tr1 @ [pfn_vkCreateDebugUtilsMessengerEXT instance messageSeverity messageType
                                 (debugMessenger \<noteq> None)];
                  (result, h) = respond w tr2
              in (result, map_option (\<lambda>_. h) debugMessenger, tr2))
           else (VK_ERROR_EXTENSION_NOT_PRESENT, debugMessenger, tr1))"

definition DestroyDebugMessenger :: "world \<Rightarrow> call list \<Rightarrow> handle \<Rightarrow> handle \<Rightarrow> fault + call list" where
  "DestroyDebugMessenger w tr instance debugMessenger =
     (if instance = 0 \<or> debugMessenger = 0 then Inr tr
      else
        let tr1 = tr @ [vkGetInstanceProcAddr instance ''vkDestroyDebugUtilsMessengerEXT''];
            function = snd (respond w tr1)
        in if function = 0 then Inl NullFunctionCall
           else Inr (tr1 @ [pfn_vkDestroyDebugUtilsMessengerEXT instance debugMessenger]))"

definition CreateReportCallback ::
  "world \<Rightarrow> call list \<Rightarrow> handle \<Rightarrow> handle option \<Rightarrow> VkResult \<times> handle option \<times> call list"
where
  "CreateReportCallback w tr instance reportCallback =
     (let flags =
            VK_DEBUG_REPORT_DEBUG_BIT_EXT OR VK_DEBUG_REPORT_ERROR_BIT_EXT
            OR VK_DEBUG_REPORT_PERFORMANCE_WARNING_BIT_EXT OR VK_DEBUG_REPORT_WARNING_BIT_EXT
            OR VK_DEBUG_REPORT_INFORMATION_BIT_EXT;
          tr1 = tr @ [vkGetInstanceProcAddr instance ''vkCreateDebugReportCallbackEXT''];
          function = snd (respond w tr1)
      in if function \<noteq> 0 then
           (let tr2 = tr1 @ [pfn_vkCreateDebugReportCallbackEXT instance flags (reportCallback \<noteq> None)];
                (result, h) = respond w tr2
            in (result, map_option (\<lambda>_. h) reportCallback, tr2))
         else (VK_ERROR_EXTENSION_NOT_PRESENT, reportCallback, tr1))"

definition DestroyReportCallback :: "world \<Rightarrow> call list \<Rightarrow> handle \<Rightarrow> handle \<Rightarrow> fault + call list" where
  "DestroyReportCallback w tr instance reportCallback =
     (if instance = 0 \<or> reportCallback = 0 then Inr tr
      else
        let tr1 = tr @ [vkGetInstanceProcAddr instance ''vkDestroyDebugReportCallbackEXT''];
            function = snd (respond w tr1)
        in if function = 0 then Inl NullFunctionCall
           else Inr (tr1 @ [pfn_vkDestroyDebugReportCallbackEXT instance reportCallback]))"

subsection \<open>Devices\<close>

text \<open>
  \<^verbatim>\<open>EnumerateDevices\<close> returns the result, the \<^verbatim>\<open>devices\<close> pointer (\<open>None\<close> while it is
  null: before the \<^verbatim>\<open>malloc\<close>, or when \<^verbatim>\<open>malloc\<close> fails, which the function does not
  check) and the count.
\<close>

definition EnumerateDevices ::
  "world \<Rightarrow> call list \<Rightarrow> handle \<Rightarrow> VkResult \<times> handle list option \<times> nat \<times> call list"
where
  "EnumerateDevices w tr instance =
     (let tr1 = tr @ [vkEnumeratePhysicalDevices instance False];
          result = fst (respond w tr1);
          device_count = length (physical_devices w)
      in if VK_SUCCESS \<noteq> result then (result, None, device_count, tr1)
         else
           let devices = (if malloc_ok w then Some (physical_devices w) else None);
               tr2 = tr1 @ [vkEnumeratePhysicalDevices instance (devices \<noteq> None)]
           in (fst (respond w tr2), devices, device_count, tr2))"

definition CreateDevice :: "world \<Rightarrow> call list \<Rightarrow> handle \<Rightarrow> nat \<Rightarrow> VkResult \<times> handle \<times> call list" where
  "CreateDevice w tr physicalDevice queueFamilyIndex =
     (let tr1 = tr @ [vkCreateDevice physicalDevice queueFamilyIndex 1];
          (result, device) = respond w tr1
      in (result, device, tr1))"

subsection \<open>Build, dispatch and teardown of one program\<close>

definition RunComputeShader ::
  "world \<Rightarrow> call list \<Rightarrow> handle \<Rightarrow> nat \<Rightarrow> u32 list \<Rightarrow> VkResult \<times> call list"
where
  "RunComputeShader w tr device queueFamilyIndex shaderCode =
     (let tr1 = tr @ [vkCreateShaderModule device (length shaderCode) shaderCode];
          (result, glslShaderModule) = respond w tr1
      in if result \<noteq> VK_SUCCESS then (result, tr1) else
      let tr2 = tr1 @ [vkCreatePipelineLayout device];
          (result, glslPipelineLayout) = respond w tr2
      in if result \<noteq> VK_SUCCESS then (result, tr2) else
      let tr3 = tr2 @ [vkCreateComputePipelines device glslShaderModule ''main'' glslPipelineLayout];
          (result, pipeline) = respond w tr3
      in if result \<noteq> VK_SUCCESS then (result, tr3) else
      let tr4 = tr3 @ [vkCreateCommandPool device queueFamilyIndex];
          (result, commandPool) = respond w tr4
      in if result \<noteq> VK_SUCCESS then (result, tr4) else
      let tr5 = tr4 @ [vkAllocateCommandBuffers device commandPool 1];
          (result, commandBuffer) = respond w tr5
      in if result \<noteq> VK_SUCCESS then (result, tr5) else
      let tr6 = tr5 @ [vkBeginCommandBuffer commandBuffer];
          result = fst (respond w tr6)
      in if result \<noteq> VK_SUCCESS then (result, tr6) else
      let tr7 = tr6 @ [vkCmdBindPipeline commandBuffer pipeline,
                       vkCmdDispatch commandBuffer (of_nat shader_local_size_x) 1 1,
                       vkEndCommandBuffer commandBuffer];
          result = fst (respond w tr7)
      in if result \<noteq> VK_SUCCESS then (result, tr7) else
      let tr8 = tr7 @ [vkGetDeviceQueue device queueFamilyIndex 0];
          queue = snd (respond w tr8);
          tr9 = tr8 @ [vkQueueSubmit queue commandBuffer];
          result = fst (respond w tr9)
      in if result \<noteq> VK_SUCCESS then (result, tr9) else
      let tr10 = tr9 @ [vkQueueWaitIdle queue];
          result = fst (respond w tr10)
      in if result \<noteq> VK_SUCCESS then (result, tr10) else
      (result,
       tr10 @ [vkFreeCommandBuffers device commandPool commandBuffer,
               vkDestroyCommandPool device commandPool,
               vkDestroyPipeline device pipeline,
               vkDestroyPipelineLayout device glslPipelineLayout,
               vkDestroyShaderModule device glslShaderModule]))"

subsection \<open>The harness\<close>

text \<open>
  How a run of \<^verbatim>\<open>main\<close> ends: by \<^verbatim>\<open>return\<close>, by the \<^verbatim>\<open>exit(EXIT_FAILURE)\<close> of the macro
  \<^verbatim>\<open>EXIT_ON_BAD_RESULT\<close> (after its line on \<^verbatim>\<open>stderr\<close>), by the exception of \<^verbatim>\<open>readFile\<close>,
  which nothing catches, or by a fault.
\<close>

datatype outcome = Returned int | Exited int | Uncaught exn | Faulted fault

text \<open>
  \<^verbatim>\<open>main\<close> from the comment \<^verbatim>\<open>// GLSL Shader setup and run\<close> to its end: both runs and the
  cleanup, with the locals of \<^verbatim>\<open>main\<close> that are live there.
\<close>

definition main_runs_and_cleanup ::
  "world \<Rightarrow> call list \<Rightarrow> handle \<Rightarrow> handle \<Rightarrow> handle \<Rightarrow> handle \<Rightarrow> nat \<Rightarrow> outcome \<times> call list"
where
  "main_runs_and_cleanup w tr instance debugMessenger reportCallback device queueFamilyIndex =
     (case readFile (files w) ''GLSLComputeShader.comp.spv'' of
        Inl e \<Rightarrow> (Uncaught e, tr)
      | Inr glslShaderCode \<Rightarrow>
     (let (result, tr) = RunComputeShader w tr device queueFamilyIndex glslShaderCode
      in if VK_SUCCESS \<noteq> result then (Exited EXIT_FAILURE, tr) else
     (case readFile (files w) ''HLSLComputeShader.comp.spv'' of
        Inl e \<Rightarrow> (Uncaught e, tr)
      | Inr hlslShaderCode \<Rightarrow>
     (let (result, tr) = RunComputeShader w tr device queueFamilyIndex hlslShaderCode
      in if VK_SUCCESS \<noteq> result then (Exited EXIT_FAILURE, tr) else
     (let tr = tr @ [vkDestroyDevice device]
      in case DestroyDebugMessenger w tr instance debugMessenger of
           Inl f \<Rightarrow> (Faulted f, tr)
         | Inr tr \<Rightarrow>
        (case DestroyReportCallback w tr instance reportCallback of
           Inl f \<Rightarrow> (Faulted f, tr)
         | Inr tr \<Rightarrow> (Returned 0, tr @ [vkDestroyInstance instance])))))))"

definition main :: "world \<Rightarrow> outcome \<times> call list" where
  "main w =
     (let instanceLayersPresent = VerifyInstanceLayers requiredInstanceLayers (instance_layers w);
          instanceExtensionsPresent =
            VerifyInstanceExtensions requiredInstanceExtensions (instance_extensions w)
      in if \<not> instanceLayersPresent \<or> \<not> instanceExtensionsPresent then (Returned 1, []) else
      let (result, instance, tr) = CreateHeadlessVulkanInstance w []
      in if VK_SUCCESS \<noteq> result then (Exited EXIT_FAILURE, tr) else
      let (result, debugMessenger, tr) = CreateDebugMessenger w tr instance (Some 0)
      in if VK_SUCCESS \<noteq> result then (Exited EXIT_FAILURE, tr) else
      let (result, reportCallback, tr) = CreateReportCallback w tr instance (Some 0)
      in if VK_SUCCESS \<noteq> result then (Exited EXIT_FAILURE, tr) else
      let (result, physicalDevices, physicalDeviceCount, tr) = EnumerateDevices w tr instance
      in if VK_SUCCESS \<noteq> result then (Exited EXIT_FAILURE, tr) else
      (case physicalDevices of
         None \<Rightarrow> (Faulted InvalidRead, tr)
       | Some [] \<Rightarrow> (Faulted InvalidRead, tr)
       | Some (physicalDevice0 # _) \<Rightarrow>
      (let (result, queueFamilyIndex) =
             GetBestComputeQueue (malloca_ok w) (queue_families w physicalDevice0) 0
       in if VK_SUCCESS \<noteq> result then (Exited EXIT_FAILURE, tr) else
       let (result, device, tr) = CreateDevice w tr physicalDevice0 queueFamilyIndex
       in if VK_SUCCESS \<noteq> result then (Exited EXIT_FAILURE, tr) else
       main_runs_and_cleanup w tr instance (the debugMessenger) (the reportCallback)
         device queueFamilyIndex)))"

section \<open>Vocabulary for the statements\<close>

text \<open>The five resources of one run, and the calls that create and release them.\<close>

datatype resource = ShaderModule | PipelineLayout | Pipeline | CommandPool | CommandBuffer

fun creates :: "call \<Rightarrow> resource option" where
  "creates (vkCreateShaderModule _ _ _) = Some ShaderModule"
| "creates (vkCreatePipelineLayout _) = Some PipelineLayout"
| "creates (vkCreateComputePipelines _ _ _ _) = Some Pipeline"
| "creates (vkCreateCommandPool _ _) = Some CommandPool"
| "creates (vkAllocateCommandBuffers _ _ _) = Some CommandBuffer"
| "creates _ = None"

fun releases :: "call \<Rightarrow> resource option" where
  "releases (vkFreeCommandBuffers _ _ _) = Some CommandBuffer"
| "releases (vkDestroyCommandPool _ _) = Some CommandPool"
| "releases (vkDestroyPipeline _ _) = Some Pipeline"
| "releases (vkDestroyPipelineLayout _ _) = Some PipelineLayout"
| "releases (vkDestroyShaderModule _ _) = Some ShaderModule"
| "releases _ = None"

text \<open>The commands recorded into the command buffer.\<close>

fun is_recorded :: "call \<Rightarrow> bool" where
  "is_recorded (vkCmdBindPipeline _ _) = True"
| "is_recorded (vkCmdDispatch _ _ _ _) = True"
| "is_recorded _ = False"

text \<open>The cleanup of \<^verbatim>\<open>main\<close>, under its comment \<^verbatim>\<open>// Vulkan cleanup\<close>.\<close>

fun is_cleanup :: "call \<Rightarrow> bool" where
  "is_cleanup (vkDestroyDevice _) = True"
| "is_cleanup (pfn_vkDestroyDebugUtilsMessengerEXT _ _) = True"
| "is_cleanup (pfn_vkDestroyDebugReportCallbackEXT _ _) = True"
| "is_cleanup (vkDestroyInstance _) = True"
| "is_cleanup _ = False"

text \<open>A call through a resolved entry point (as opposed to resolving it).\<close>

fun is_pfn :: "call \<Rightarrow> bool" where
  "is_pfn (pfn_vkCreateDebugUtilsMessengerEXT _ _ _ _) = True"
| "is_pfn (pfn_vkDestroyDebugUtilsMessengerEXT _ _) = True"
| "is_pfn (pfn_vkCreateDebugReportCallbackEXT _ _ _) = True"
| "is_pfn (pfn_vkDestroyDebugReportCallbackEXT _ _) = True"
| "is_pfn _ = False"

text \<open>The calls a run adds to the history \<open>tr\<close> it started from.\<close>

definition added :: "call list \<Rightarrow> call list \<Rightarrow> call list" where
  "added tr tr' = drop (length tr) tr'"

text \<open>
  The calls of a run of \<^verbatim>\<open>RunComputeShader\<close> in which every step succeeds, in program order,
  for the handles the driver hands back: module \<open>m\<close>, layout \<open>l\<close>, pipeline \<open>p\<close>, command
  pool \<open>cp\<close>, command buffer \<open>cb\<close> and queue \<open>qu\<close>. The properties below relate the runs of
  the function to prefixes of this list.
\<close>

definition run_calls ::
  "handle \<Rightarrow> nat \<Rightarrow> u32 list \<Rightarrow> handle \<Rightarrow> handle \<Rightarrow> handle \<Rightarrow> handle \<Rightarrow> handle \<Rightarrow> handle \<Rightarrow> call list"
where
  "run_calls device queueFamilyIndex shaderCode m l p cp cb qu =
     [vkCreateShaderModule device (length shaderCode) shaderCode,
      vkCreatePipelineLayout device,
      vkCreateComputePipelines device m ''main'' l,
      vkCreateCommandPool device queueFamilyIndex,
      vkAllocateCommandBuffers device cp 1,
      vkBeginCommandBuffer cb,
      vkCmdBindPipeline cb p,
      vkCmdDispatch cb 512 1 1,
      vkEndCommandBuffer cb,
      vkGetDeviceQueue device queueFamilyIndex 0,
      vkQueueSubmit qu cb,
      vkQueueWaitIdle qu,
      vkFreeCommandBuffers device cp cb,
      vkDestroyCommandPool device cp,
      vkDestroyPipeline device p,
      vkDestroyPipelineLayout device l,
      vkDestroyShaderModule device m]"

text \<open>
  The program tests the result of nine of these calls. \<open>checked_steps\<close> holds their positions in
  \<open>run_calls\<close>, counted from one: the prefix of that length ends in the tested call. The
  calls in between (binding, dispatching, fetching the queue) and the five releases at the
  end return nothing the program looks at.
\<close>

definition checked_steps :: "nat set" where
  "checked_steps = {1, 2, 3, 4, 5, 6, 9, 11, 12}"

text \<open>
  The driver accepts the \<open>j\<close>-th call of \<open>rc\<close>, made after the history \<open>tr\<close> and the calls of
  \<open>rc\<close> before it: its answer to that history is \<^verbatim>\<open>VK_SUCCESS\<close>.
\<close>

definition accepts :: "world \<Rightarrow> call list \<Rightarrow> call list \<Rightarrow> nat \<Rightarrow> bool" where
  "accepts w tr rc j \<longleftrightarrow> fst (respond w (tr @ take j rc)) = VK_SUCCESS"

text \<open>
  The handles in \<open>rc\<close> are the ones the driver hands back: each is the driver's answer to the
  history that ends in the call creating it (the five creations, and \<^verbatim>\<open>vkGetDeviceQueue\<close>).
\<close>

definition handed_back ::
  "world \<Rightarrow> call list \<Rightarrow> call list \<Rightarrow> handle \<Rightarrow> handle \<Rightarrow> handle \<Rightarrow> handle \<Rightarrow> handle \<Rightarrow> handle \<Rightarrow> bool"
where
  "handed_back w tr rc m l p cp cb qu \<longleftrightarrow>
     m = snd (respond w (tr @ take 1 rc))
     \<and> l = snd (respond w (tr @ take 2 rc))
     \<and> p = snd (respond w (tr @ take 3 rc))
     \<and> cp = snd (respond w (tr @ take 4 rc))
     \<and> cb = snd (respond w (tr @ take 5 rc))
     \<and> qu = snd (respond w (tr @ take 10 rc))"

subsection \<open>Example worlds\<close>

text \<open>
  A driver that accepts every call and hands back the position of the call as the handle
  (so no handle is null), and drivers that differ from it on the calls picked by \<open>bad\<close>,
  which they answer with the result \<open>e\<close> and a null handle.
\<close>

definition respond_ok :: "call list \<Rightarrow> VkResult \<times> handle" where
  "respond_ok tr = (VK_SUCCESS, length tr)"

definition respond_bad :: "(call \<Rightarrow> bool) \<Rightarrow> VkResult \<Rightarrow> call list \<Rightarrow> VkResult \<times> handle" where
  "respond_bad bad e tr = (if tr \<noteq> [] \<and> bad (last tr) then (e, 0) else (VK_SUCCESS, length tr))"

fun is_vkCreateShaderModule :: "call \<Rightarrow> bool" where
  "is_vkCreateShaderModule (vkCreateShaderModule _ _ _) = True"
| "is_vkCreateShaderModule _ = False"

fun is_vkQueueSubmit :: "call \<Rightarrow> bool" where
  "is_vkQueueSubmit (vkQueueSubmit _ _) = True"
| "is_vkQueueSubmit _ = False"

fun is_vkGetInstanceProcAddr :: "call \<Rightarrow> bool" where
  "is_vkGetInstanceProcAddr (vkGetInstanceProcAddr _ _) = True"
| "is_vkGetInstanceProcAddr _ = False"

text \<open>
  A machine with the validation layer, both debug extensions, one physical device with a
  graphics family and a compute-and-transfer family, and both program files; each file is the
  four bytes of the SPIR-V magic number.
\<close>

definition example_world :: "(call list \<Rightarrow> VkResult \<times> handle) \<Rightarrow> world" where
  "example_world r =
     \<lparr> respond = r,
       instance_layers = [''VK_LAYER_KHRONOS_validation''],
       instance_extensions = [''VK_KHR_surface'', ''VK_EXT_debug_report'', ''VK_EXT_debug_utils''],
       physical_devices = [7],
       queue_families = (\<lambda>_. [VK_QUEUE_GRAPHICS_BIT OR VK_QUEUE_COMPUTE_BIT OR VK_QUEUE_TRANSFER_BIT,
                                VK_QUEUE_COMPUTE_BIT OR VK_QUEUE_TRANSFER_BIT]),
       malloc_ok = True,
       malloca_ok = True,
       files = [''GLSLComputeShader.comp.spv'' \<mapsto> [0x03, 0x02, 0x23, 0x07],
                ''HLSLComputeShader.comp.spv'' \<mapsto> [0x03, 0x02, 0x23, 0x07]] \<rparr>"

section \<open>Properties: capability verification\<close>

lemma strcmp_zero_iff: "strcmp a b = 0 \<longleftrightarrow> a = b"
  by (induction a b rule: strcmp.induct) auto

lemma layerFound_iff: "layerFound n av \<longleftrightarrow> n \<in> set av"
  by (induction av) (auto simp: strcmp_zero_iff)

lemma all_found_iff: "all_found req av \<longleftrightarrow> (\<forall>n\<in>set req. n \<in> set av)"
  by (induction req) (auto simp: layerFound_iff)

text \<open>
  Claim C4. For every list of requested names and every enumerated list, each verifier
  returns true exactly when every requested name occurs in the enumerated list; \<^verbatim>\<open>strcmp\<close>
  returning zero is equality of the two strings, byte for byte, so the match is exact and
  case-sensitive. The result depends on the two lists only through their sets of names, hence
  not on their order (or on repetitions), and an empty request passes whatever is enumerated.
\<close>

theorem Verify_iff_all_requested_available:
  "(VerifyInstanceLayers requested available \<longleftrightarrow> (\<forall>n\<in>set requested. n \<in> set available))
   \<and> (VerifyInstanceExtensions requested available \<longleftrightarrow> (\<forall>n\<in>set requested. n \<in> set available))
   \<and> (set requested = set requested' \<and> set available = set available' \<longrightarrow>
        VerifyInstanceLayers requested available = VerifyInstanceLayers requested' available'
        \<and> VerifyInstanceExtensions requested available = VerifyInstanceExtensions requested' available')
   \<and> VerifyInstanceLayers [] available
   \<and> VerifyInstanceExtensions [] available"
  by (auto simp: VerifyInstanceLayers_def VerifyInstanceExtensions_def all_found_iff)

text \<open>
  The program's own request lists against three enumerations: a match among other names, a
  name that differs in case only, and a missing extension; then two orderings of one request.
\<close>

theorem Verify_iff_all_requested_available_witness:
  "VerifyInstanceLayers requiredInstanceLayers [''VK_LAYER_A'', ''VK_LAYER_KHRONOS_validation'']
   \<and> \<not> VerifyInstanceLayers requiredInstanceLayers [''vk_layer_khronos_validation'']
   \<and> VerifyInstanceExtensions requiredInstanceExtensions
        [''VK_EXT_debug_report'', ''VK_KHR_surface'', ''VK_EXT_debug_utils'']
   \<and> \<not> VerifyInstanceExtensions requiredInstanceExtensions [''VK_EXT_debug_utils'']
   \<and> VerifyInstanceExtensions [''b'', ''a''] [''a'', ''c'', ''b'']
      = VerifyInstanceExtensions [''a'', ''b'', ''a''] [''c'', ''b'', ''a'']
   \<and> VerifyInstanceLayers [] []"
proof -
  have sets: "set [''b'', ''a''] = set [''a'', ''b'', ''a'']
              \<and> set [''a'', ''c'', ''b''] = set [''c'', ''b'', ''a'']"
    by auto
  have "VerifyInstanceLayers requiredInstanceLayers [''VK_LAYER_A'', ''VK_LAYER_KHRONOS_validation'']"
    using Verify_iff_all_requested_available
            [of requiredInstanceLayers "[''VK_LAYER_A'', ''VK_LAYER_KHRONOS_validation'']"]
    by (simp add: requiredInstanceLayers_def)
  moreover have "\<not> VerifyInstanceLayers requiredInstanceLayers [''vk_layer_khronos_validation'']"
    using Verify_iff_all_requested_available
            [of requiredInstanceLayers "[''vk_layer_khronos_validation'']"]
    by (simp add: requiredInstanceLayers_def)
  moreover have "VerifyInstanceExtensions requiredInstanceExtensions
                   [''VK_EXT_debug_report'', ''VK_KHR_surface'', ''VK_EXT_debug_utils'']"
    using Verify_iff_all_requested_available
            [of requiredInstanceExtensions
                "[''VK_EXT_debug_report'', ''VK_KHR_surface'', ''VK_EXT_debug_utils'']"]
    by (simp add: requiredInstanceExtensions_def VK_EXT_DEBUG_UTILS_EXTENSION_NAME_def
          VK_EXT_DEBUG_REPORT_EXTENSION_NAME_def)
  moreover have "\<not> VerifyInstanceExtensions requiredInstanceExtensions [''VK_EXT_debug_utils'']"
    using Verify_iff_all_requested_available
            [of requiredInstanceExtensions "[''VK_EXT_debug_utils'']"]
    by (simp add: requiredInstanceExtensions_def VK_EXT_DEBUG_UTILS_EXTENSION_NAME_def
          VK_EXT_DEBUG_REPORT_EXTENSION_NAME_def)
  moreover have "VerifyInstanceExtensions [''b'', ''a''] [''a'', ''c'', ''b'']
                 = VerifyInstanceExtensions [''a'', ''b'', ''a''] [''c'', ''b'', ''a'']"
    using Verify_iff_all_requested_available
            [of "[''b'', ''a'']" "[''a'', ''c'', ''b'']" "[''a'', ''b'', ''a'']" "[''c'', ''b'', ''a'']"]
          sets
    by blast
  moreover have "VerifyInstanceLayers [] []"
    using Verify_iff_all_requested_available [of "[]" "[]"] by blast
  ultimately show ?thesis by blast
qed

section \<open>Properties: the message sinks\<close>

text \<open>
  Claim C2. In filtered mode the severity-channel sink writes a line exactly when the
  message's type flags are equal to \<^verbatim>\<open>VK_DEBUG_UTILS_MESSAGE_TYPE_VALIDATION_BIT_EXT\<close>, and the
  line carries the message text; the types general and performance, and validation combined
  with another bit, write nothing. The sink returns \<^verbatim>\<open>VK_FALSE\<close> in every case.
\<close>

theorem VulkanDebugCallback_filtered:
  "fst (VulkanDebugCallback True messageSeverity messageType pCallbackData) = VK_FALSE
   \<and> (snd (VulkanDebugCallback True messageSeverity messageType pCallbackData) \<noteq> []
        \<longleftrightarrow> messageType = VK_DEBUG_UTILS_MESSAGE_TYPE_VALIDATION_BIT_EXT)
   \<and> (messageType = VK_DEBUG_UTILS_MESSAGE_TYPE_VALIDATION_BIT_EXT \<longrightarrow>
        snd (VulkanDebugCallback True messageSeverity messageType pCallbackData)
        = [Str ''[VULKAN DEBUG] : '', Str (severity_tag messageSeverity), Str '' : [FLAGS]: '',
           Num messageType, Str [CHR 0x09], Str (pMessage pCallbackData), Endl])
   \<and> snd (VulkanDebugCallback True messageSeverity VK_DEBUG_UTILS_MESSAGE_TYPE_GENERAL_BIT_EXT
          pCallbackData) = []
   \<and> snd (VulkanDebugCallback True messageSeverity VK_DEBUG_UTILS_MESSAGE_TYPE_PERFORMANCE_BIT_EXT
          pCallbackData) = []
   \<and> snd (VulkanDebugCallback True messageSeverity
          (VK_DEBUG_UTILS_MESSAGE_TYPE_VALIDATION_BIT_EXT OR VK_DEBUG_UTILS_MESSAGE_TYPE_GENERAL_BIT_EXT)
          pCallbackData) = []"
  by (simp add: VulkanDebugCallback_def VK_DEBUG_UTILS_MESSAGE_TYPE_VALIDATION_BIT_EXT_def
        VK_DEBUG_UTILS_MESSAGE_TYPE_GENERAL_BIT_EXT_def
        VK_DEBUG_UTILS_MESSAGE_TYPE_PERFORMANCE_BIT_EXT_def)

text \<open>The shipped mode, on a validation message and on a general one.\<close>

theorem VulkanDebugCallback_filtered_witness:
  "VulkanDebugCallback SHOW_ONLY_DEBUG_PRINTF_EXT_MESSAGES VK_DEBUG_UTILS_MESSAGE_SEVERITY_INFO_BIT_EXT
     VK_DEBUG_UTILS_MESSAGE_TYPE_VALIDATION_BIT_EXT \<lparr>pMessage = ''hello from the shader''\<rparr>
   = (VK_FALSE,
      [Str ''[VULKAN DEBUG] : '', Str ''[INFO]   '', Str '' : [FLAGS]: '', Num 2, Str [CHR 0x09],
       Str ''hello from the shader'', Endl])
   \<and> VulkanDebugCallback SHOW_ONLY_DEBUG_PRINTF_EXT_MESSAGES VK_DEBUG_UTILS_MESSAGE_SEVERITY_INFO_BIT_EXT
       VK_DEBUG_UTILS_MESSAGE_TYPE_GENERAL_BIT_EXT \<lparr>pMessage = ''hello from the shader''\<rparr>
     = (VK_FALSE, [])"
  using VulkanDebugCallback_filtered
          [of VK_DEBUG_UTILS_MESSAGE_SEVERITY_INFO_BIT_EXT VK_DEBUG_UTILS_MESSAGE_TYPE_VALIDATION_BIT_EXT
              "\<lparr>pMessage = ''hello from the shader''\<rparr>"]
        VulkanDebugCallback_filtered
          [of VK_DEBUG_UTILS_MESSAGE_SEVERITY_INFO_BIT_EXT VK_DEBUG_UTILS_MESSAGE_TYPE_GENERAL_BIT_EXT
              "\<lparr>pMessage = ''hello from the shader''\<rparr>"]
  by (simp add: prod_eq_iff SHOW_ONLY_DEBUG_PRINTF_EXT_MESSAGES_def severity_tag_def
        VK_DEBUG_UTILS_MESSAGE_SEVERITY_INFO_BIT_EXT_def
        VK_DEBUG_UTILS_MESSAGE_SEVERITY_VERBOSE_BIT_EXT_def
        VK_DEBUG_UTILS_MESSAGE_TYPE_VALIDATION_BIT_EXT_def)

lemma find_from_None: "find_from s pat i = None \<longleftrightarrow> \<not> sublist pat s"
  by (induction s arbitrary: i) (auto simp: sublist_Cons_right)

lemma string_find_npos: "string_find s pat = None \<longleftrightarrow> \<not> (\<exists>pre post. s = pre @ pat @ post)"
  by (simp add: string_find_def find_from_None sublist_def)

text \<open>
  Claim C3. In filtered mode the flag-channel sink writes a line exactly when the flags are
  equal to \<^verbatim>\<open>VK_DEBUG_REPORT_INFORMATION_BIT_EXT\<close> and the text contains \<^verbatim>\<open>Validation\<close> as a
  substring; when either fails it writes nothing. It returns \<^verbatim>\<open>VK_FALSE\<close> in every case.
\<close>

theorem VulkanReportCallback_filtered:
  "fst (VulkanReportCallback True flags objectType object location messageCode pLayerPrefix msg) = VK_FALSE
   \<and> (snd (VulkanReportCallback True flags objectType object location messageCode pLayerPrefix msg) \<noteq> []
        \<longleftrightarrow> flags = VK_DEBUG_REPORT_INFORMATION_BIT_EXT
            \<and> (\<exists>pre post. msg = pre @ ''Validation'' @ post))
   \<and> (flags = VK_DEBUG_REPORT_INFORMATION_BIT_EXT \<and> (\<exists>pre post. msg = pre @ ''Validation'' @ post) \<longrightarrow>
        snd (VulkanReportCallback True flags objectType object location messageCode pLayerPrefix msg)
        = [Str ''[VULKAN REPORT]: [FLAGS]: '', Num flags, Str '' [LAYER]: '', Str pLayerPrefix,
           Str '' [MESSAGE]: '', Str msg, Endl])"
  using string_find_npos [of msg "''Validation''"]
  by (auto simp: VulkanReportCallback_def)

text \<open>
  The shipped mode on an informational message that contains the word, on the same text with
  the warning flag, and on an informational message that has the word in lower case only.
\<close>

theorem VulkanReportCallback_filtered_witness:
  "VulkanReportCallback SHOW_ONLY_DEBUG_PRINTF_EXT_MESSAGES VK_DEBUG_REPORT_INFORMATION_BIT_EXT 0 0 0 0
     ''Validation'' ''[ Validation Information ] x = 1''
   = (VK_FALSE,
      [Str ''[VULKAN REPORT]: [FLAGS]: '', Num 1, Str '' [LAYER]: '', Str ''Validation'',
       Str '' [MESSAGE]: '', Str ''[ Validation Information ] x = 1'', Endl])
   \<and> VulkanReportCallback SHOW_ONLY_DEBUG_PRINTF_EXT_MESSAGES VK_DEBUG_REPORT_WARNING_BIT_EXT 0 0 0 0
       ''Validation'' ''[ Validation Information ] x = 1'' = (VK_FALSE, [])
   \<and> VulkanReportCallback SHOW_ONLY_DEBUG_PRINTF_EXT_MESSAGES VK_DEBUG_REPORT_INFORMATION_BIT_EXT 0 0 0 0
       ''Validation'' ''loader: validation layer found'' = (VK_FALSE, [])"
proof -
  have occurs: "\<exists>pre post. ''[ Validation Information ] x = 1'' = pre @ ''Validation'' @ post"
    using string_find_npos [of "''[ Validation Information ] x = 1''" "''Validation''"]
    by (simp add: string_find_def)
  have absent: "\<not> (\<exists>pre post. ''loader: validation layer found'' = pre @ ''Validation'' @ post)"
    using string_find_npos [of "''loader: validation layer found''" "''Validation''"]
    by (simp add: string_find_def)
  have "VulkanReportCallback True VK_DEBUG_REPORT_INFORMATION_BIT_EXT 0 0 0 0
          ''Validation'' ''[ Validation Information ] x = 1''
        = (VK_FALSE,
           [Str ''[VULKAN REPORT]: [FLAGS]: '', Num 1, Str '' [LAYER]: '', Str ''Validation'',
            Str '' [MESSAGE]: '', Str ''[ Validation Information ] x = 1'', Endl])"
    using VulkanReportCallback_filtered
            [of VK_DEBUG_REPORT_INFORMATION_BIT_EXT 0 0 0 0 "''Validation''"
                "''[ Validation Information ] x = 1''"] occurs
    by (simp only: prod_eq_iff fst_conv snd_conv)
       (simp add: VK_DEBUG_REPORT_INFORMATION_BIT_EXT_def)
  moreover have "VulkanReportCallback True VK_DEBUG_REPORT_WARNING_BIT_EXT 0 0 0 0
          ''Validation'' ''[ Validation Information ] x = 1'' = (VK_FALSE, [])"
    using VulkanReportCallback_filtered
            [of VK_DEBUG_REPORT_WARNING_BIT_EXT 0 0 0 0 "''Validation''"
                "''[ Validation Information ] x = 1''"]
    by (simp only: prod_eq_iff fst_conv snd_conv)
       (simp add: VK_DEBUG_REPORT_INFORMATION_BIT_EXT_def VK_DEBUG_REPORT_WARNING_BIT_EXT_def)
  moreover have "VulkanReportCallback True VK_DEBUG_REPORT_INFORMATION_BIT_EXT 0 0 0 0
          ''Validation'' ''loader: validation layer found'' = (VK_FALSE, [])"
    using VulkanReportCallback_filtered
            [of VK_DEBUG_REPORT_INFORMATION_BIT_EXT 0 0 0 0 "''Validation''"
                "''loader: validation layer found''"] absent
    by (simp only: prod_eq_iff fst_conv snd_conv) blast
  ultimately show ?thesis
    by (simp only: SHOW_ONLY_DEBUG_PRINTF_EXT_MESSAGES_def)
qed

section \<open>Properties: queue-family selection\<close>

lemma first_loop_Some:
  "first_loop ps i = Some k \<Longrightarrow>
     i \<le> k \<and> k < length ps \<and> compute_not_graphics (ps ! k)
     \<and> (\<forall>j. i \<le> j \<and> j < k \<longrightarrow> \<not> compute_not_graphics (ps ! j))"
proof (induction ps i rule: first_loop.induct)
  case (1 ps i)
  show ?case
  proof (cases "i < length ps \<and> \<not> compute_not_graphics (ps ! i)")
    case True
    with "1.prems" have "first_loop ps (i + 1) = Some k"
      by (simp add: first_loop.simps [of ps i])
    with "1.IH" True have ih: "i + 1 \<le> k \<and> k < length ps \<and> compute_not_graphics (ps ! k)
       \<and> (\<forall>j. i + 1 \<le> j \<and> j < k \<longrightarrow> \<not> compute_not_graphics (ps ! j))"
      by blast
    have "\<not> compute_not_graphics (ps ! j)" if "i \<le> j" "j < k" for j
    proof (cases "j = i")
      case True with \<open>i < length ps \<and> \<not> compute_not_graphics (ps ! i)\<close> show ?thesis by simp
    next
      case False with that ih show ?thesis by auto
    qed
    with ih show ?thesis by auto
  next
    case False
    with "1.prems" show ?thesis
      by (auto simp: first_loop.simps [of ps i] split: if_splits)
  qed
qed

lemma first_loop_None:
  "first_loop ps i = None \<Longrightarrow> i \<le> j \<Longrightarrow> j < length ps \<Longrightarrow> \<not> compute_not_graphics (ps ! j)"
proof (induction ps i rule: first_loop.induct)
  case (1 ps i)
  from "1.prems" have a: "i < length ps" by simp
  with "1.prems"(1) have b: "\<not> compute_not_graphics (ps ! i)" and c: "first_loop ps (i + 1) = None"
    by (auto simp: first_loop.simps [of ps i] split: if_splits)
  show ?case
  proof (cases "j = i")
    case True with b show ?thesis by simp
  next
    case False
    with "1.prems" have "i + 1 \<le> j" by simp
    with "1.IH" a b c "1.prems"(3) show ?thesis by blast
  qed
qed

lemma second_loop_Some:
  "second_loop ps i = Some k \<Longrightarrow>
     i \<le> k \<and> k < length ps \<and> compute_capable (ps ! k)
     \<and> (\<forall>j. i \<le> j \<and> j < k \<longrightarrow> \<not> compute_capable (ps ! j))"
proof (induction ps i rule: second_loop.induct)
  case (1 ps i)
  show ?case
  proof (cases "i < length ps \<and> \<not> compute_capable (ps ! i)")
    case True
    with "1.prems" have "second_loop ps (i + 1) = Some k"
      by (simp add: second_loop.simps [of ps i])
    with "1.IH" True have ih: "i + 1 \<le> k \<and> k < length ps \<and> compute_capable (ps ! k)
       \<and> (\<forall>j. i + 1 \<le> j \<and> j < k \<longrightarrow> \<not> compute_capable (ps ! j))"
      by blast
    have "\<not> compute_capable (ps ! j)" if "i \<le> j" "j < k" for j
    proof (cases "j = i")
      case True with \<open>i < length ps \<and> \<not> compute_capable (ps ! i)\<close> show ?thesis by simp
    next
      case False with that ih show ?thesis by auto
    qed
    with ih show ?thesis by auto
  next
    case False
    with "1.prems" show ?thesis
      by (auto simp: second_loop.simps [of ps i] split: if_splits)
  qed
qed

lemma second_loop_None:
  "second_loop ps i = None \<Longrightarrow> i \<le> j \<Longrightarrow> j < length ps \<Longrightarrow> \<not> compute_capable (ps ! j)"
proof (induction ps i rule: second_loop.induct)
  case (1 ps i)
  from "1.prems" have a: "i < length ps" by simp
  with "1.prems"(1) have b: "\<not> compute_capable (ps ! i)" and c: "second_loop ps (i + 1) = None"
    by (auto simp: second_loop.simps [of ps i] split: if_splits)
  show ?case
  proof (cases "j = i")
    case True with b show ?thesis by simp
  next
    case False
    with "1.prems" have "i + 1 \<le> j" by simp
    with "1.IH" a b c "1.prems"(3) show ?thesis by blast
  qed
qed

lemma and_masked_compute: "VK_QUEUE_COMPUTE_BIT AND maskedFlags f = VK_QUEUE_COMPUTE_BIT AND f"
proof -
  have "VK_QUEUE_COMPUTE_BIT AND NOT (VK_QUEUE_TRANSFER_BIT OR VK_QUEUE_SPARSE_BINDING_BIT)
        = VK_QUEUE_COMPUTE_BIT"
    by (simp add: VK_QUEUE_COMPUTE_BIT_def VK_QUEUE_TRANSFER_BIT_def VK_QUEUE_SPARSE_BINDING_BIT_def)
  then show ?thesis
    unfolding maskedFlags_def by (metis and.assoc)
qed

lemma and_masked_graphics: "VK_QUEUE_GRAPHICS_BIT AND maskedFlags f = VK_QUEUE_GRAPHICS_BIT AND f"
proof -
  have "VK_QUEUE_GRAPHICS_BIT AND NOT (VK_QUEUE_TRANSFER_BIT OR VK_QUEUE_SPARSE_BINDING_BIT)
        = VK_QUEUE_GRAPHICS_BIT"
    by (simp add: VK_QUEUE_GRAPHICS_BIT_def VK_QUEUE_TRANSFER_BIT_def VK_QUEUE_SPARSE_BINDING_BIT_def)
  then show ?thesis
    unfolding maskedFlags_def by (metis and.assoc)
qed

lemma compute_capable_iff: "compute_capable f \<longleftrightarrow> VK_QUEUE_COMPUTE_BIT AND f \<noteq> 0"
  by (simp add: compute_capable_def and_masked_compute)

lemma compute_not_graphics_iff:
  "compute_not_graphics f \<longleftrightarrow> VK_QUEUE_COMPUTE_BIT AND f \<noteq> 0 \<and> VK_QUEUE_GRAPHICS_BIT AND f = 0"
  by (auto simp: compute_not_graphics_def and_masked_compute and_masked_graphics)

lemma VkResult_distinct:
  "VK_SUCCESS \<noteq> VK_ERROR_OUT_OF_DEVICE_MEMORY" "VK_SUCCESS \<noteq> VK_ERROR_INITIALIZATION_FAILED"
  "VK_SUCCESS \<noteq> VK_ERROR_EXTENSION_NOT_PRESENT" "VK_SUCCESS \<noteq> VK_ERROR_UNKNOWN"
  "VK_ERROR_OUT_OF_DEVICE_MEMORY \<noteq> VK_ERROR_INITIALIZATION_FAILED"
  "VK_ERROR_EXTENSION_NOT_PRESENT \<noteq> VK_ERROR_UNKNOWN"
  by (simp_all add: VK_SUCCESS_def VK_ERROR_OUT_OF_DEVICE_MEMORY_def VK_ERROR_INITIALIZATION_FAILED_def
        VK_ERROR_EXTENSION_NOT_PRESENT_def VK_ERROR_UNKNOWN_def)

text \<open>
  Claim C1, as amended. When the allocation for the family array fails, selection returns
  \<^verbatim>\<open>VK_ERROR_OUT_OF_DEVICE_MEMORY\<close> whatever the families are. When it succeeds: if some family
  passes the first test (masked flags with COMPUTE and without GRAPHICS), selection succeeds
  with the index of the first such family in enumeration order; if none does and some family
  passes the second test (masked flags with COMPUTE), it succeeds with the index of the first
  of those; if no family passes either, it returns \<^verbatim>\<open>VK_ERROR_INITIALIZATION_FAILED\<close> and leaves
  the index as it was. Whenever selection succeeds the selected family has its COMPUTE bit
  set. Masking the TRANSFER and SPARSE_BINDING bits does not change either test: both are
  tests on the COMPUTE and GRAPHICS bits of the unmasked flags.
\<close>

theorem GetBestComputeQueue_tiers:
  assumes "GetBestComputeQueue alloc_ok families q0 = (result, q)"
  shows "(\<not> alloc_ok \<longrightarrow> result = VK_ERROR_OUT_OF_DEVICE_MEMORY \<and> q = q0)
    \<and> (alloc_ok \<and> (\<exists>j<length families. compute_not_graphics (families ! j)) \<longrightarrow>
          result = VK_SUCCESS \<and> q < length families \<and> compute_not_graphics (families ! q)
          \<and> (\<forall>j<q. \<not> compute_not_graphics (families ! j)))
    \<and> (alloc_ok \<and> (\<forall>j<length families. \<not> compute_not_graphics (families ! j))
          \<and> (\<exists>j<length families. compute_capable (families ! j)) \<longrightarrow>
          result = VK_SUCCESS \<and> q < length families \<and> compute_capable (families ! q)
          \<and> (\<forall>j<q. \<not> compute_capable (families ! j)))
    \<and> (alloc_ok \<and> (\<forall>j<length families. \<not> compute_capable (families ! j)) \<longrightarrow>
          result = VK_ERROR_INITIALIZATION_FAILED \<and> q = q0)
    \<and> (result = VK_SUCCESS \<longrightarrow> q < length families \<and> VK_QUEUE_COMPUTE_BIT AND families ! q \<noteq> 0)
    \<and> (\<forall>f. compute_not_graphics f
             \<longleftrightarrow> VK_QUEUE_COMPUTE_BIT AND f \<noteq> 0 \<and> VK_QUEUE_GRAPHICS_BIT AND f = 0)
    \<and> (\<forall>f. compute_capable f \<longleftrightarrow> VK_QUEUE_COMPUTE_BIT AND f \<noteq> 0)"
proof (cases alloc_ok)
  case False
  with assms show ?thesis
    by (simp add: GetBestComputeQueue_def VkResult_distinct [symmetric]
          compute_capable_iff compute_not_graphics_iff)
next
  case True
  note ok = True
  show ?thesis
  proof (cases "first_loop families 0")
    case (Some k)
    with ok assms have r: "result = VK_SUCCESS" "q = k"
      by (simp_all add: GetBestComputeQueue_def)
    from first_loop_Some [OF Some]
    have k: "k < length families" "compute_not_graphics (families ! k)"
            "\<forall>j<k. \<not> compute_not_graphics (families ! j)"
      by auto
    from k(2) have "compute_capable (families ! k)"
      by (simp add: compute_capable_iff compute_not_graphics_iff)
    with r k ok show ?thesis
      by (auto simp: compute_capable_iff compute_not_graphics_iff)
  next
    case None
    note none1 = None
    have no1: "\<forall>j<length families. \<not> compute_not_graphics (families ! j)"
      using first_loop_None [OF none1] by simp
    show ?thesis
    proof (cases "second_loop families 0")
      case (Some k)
      with ok none1 assms have r: "result = VK_SUCCESS" "q = k"
        by (simp_all add: GetBestComputeQueue_def)
      from second_loop_Some [OF Some]
      have k: "k < length families" "compute_capable (families ! k)"
              "\<forall>j<k. \<not> compute_capable (families ! j)"
        by auto
      with r ok no1 show ?thesis
        by (auto simp: compute_capable_iff compute_not_graphics_iff)
    next
      case None
      with ok none1 assms have r: "result = VK_ERROR_INITIALIZATION_FAILED" "q = q0"
        by (simp_all add: GetBestComputeQueue_def)
      have no2: "\<forall>j<length families. \<not> compute_capable (families ! j)"
        using second_loop_None [OF None] by simp
      with r ok no1 show ?thesis
        by (auto simp: compute_capable_iff compute_not_graphics_iff VkResult_distinct [symmetric])
    qed
  qed
qed

lemmas queue_bits =
  VK_QUEUE_GRAPHICS_BIT_def VK_QUEUE_COMPUTE_BIT_def VK_QUEUE_TRANSFER_BIT_def
  VK_QUEUE_SPARSE_BINDING_BIT_def

text \<open>
  The three family lists of the specification's examples, and a failed allocation.
\<close>

lemma example_families:
  "GetBestComputeQueue True
     [VK_QUEUE_GRAPHICS_BIT, VK_QUEUE_COMPUTE_BIT OR VK_QUEUE_TRANSFER_BIT,
      VK_QUEUE_COMPUTE_BIT OR VK_QUEUE_GRAPHICS_BIT] 0 = (VK_SUCCESS, 1)"
  "GetBestComputeQueue True
     [VK_QUEUE_GRAPHICS_BIT, VK_QUEUE_COMPUTE_BIT OR VK_QUEUE_GRAPHICS_BIT] 0 = (VK_SUCCESS, 1)"
  "GetBestComputeQueue True [VK_QUEUE_GRAPHICS_BIT, VK_QUEUE_TRANSFER_BIT] 0
     = (VK_ERROR_INITIALIZATION_FAILED, 0)"
  "GetBestComputeQueue False [VK_QUEUE_GRAPHICS_BIT, VK_QUEUE_TRANSFER_BIT] 5
     = (VK_ERROR_OUT_OF_DEVICE_MEMORY, 5)"
  by code_simp+

theorem GetBestComputeQueue_tiers_witness:
  "GetBestComputeQueue True
     [VK_QUEUE_GRAPHICS_BIT, VK_QUEUE_COMPUTE_BIT OR VK_QUEUE_TRANSFER_BIT,
      VK_QUEUE_COMPUTE_BIT OR VK_QUEUE_GRAPHICS_BIT] 0 = (VK_SUCCESS, 1)
   \<and> VK_QUEUE_COMPUTE_BIT AND
       [VK_QUEUE_GRAPHICS_BIT, VK_QUEUE_COMPUTE_BIT OR VK_QUEUE_TRANSFER_BIT,
        VK_QUEUE_COMPUTE_BIT OR VK_QUEUE_GRAPHICS_BIT] ! 1 \<noteq> 0
   \<and> GetBestComputeQueue True
       [VK_QUEUE_GRAPHICS_BIT, VK_QUEUE_COMPUTE_BIT OR VK_QUEUE_GRAPHICS_BIT] 0 = (VK_SUCCESS, 1)
   \<and> VK_QUEUE_COMPUTE_BIT AND
       [VK_QUEUE_GRAPHICS_BIT, VK_QUEUE_COMPUTE_BIT OR VK_QUEUE_GRAPHICS_BIT] ! 1 \<noteq> 0
   \<and> GetBestComputeQueue True [VK_QUEUE_GRAPHICS_BIT, VK_QUEUE_TRANSFER_BIT] 0
       = (VK_ERROR_INITIALIZATION_FAILED, 0)
   \<and> GetBestComputeQueue False [VK_QUEUE_GRAPHICS_BIT, VK_QUEUE_TRANSFER_BIT] 5
       = (VK_ERROR_OUT_OF_DEVICE_MEMORY, 5)"
proof -
  have ok: "VK_SUCCESS = VK_SUCCESS" ..
  have "VK_QUEUE_COMPUTE_BIT AND
       [VK_QUEUE_GRAPHICS_BIT, VK_QUEUE_COMPUTE_BIT OR VK_QUEUE_TRANSFER_BIT,
        VK_QUEUE_COMPUTE_BIT OR VK_QUEUE_GRAPHICS_BIT] ! 1 \<noteq> 0"
    using GetBestComputeQueue_tiers [OF example_families(1)] ok by blast
  moreover have "VK_QUEUE_COMPUTE_BIT AND
       [VK_QUEUE_GRAPHICS_BIT, VK_QUEUE_COMPUTE_BIT OR VK_QUEUE_GRAPHICS_BIT] ! 1 \<noteq> 0"
    using GetBestComputeQueue_tiers [OF example_families(2)] ok by blast
  ultimately show ?thesis
    using example_families by blast
qed

text \<open>
  Claim C1 as stated fails where \<^verbatim>\<open>_malloca\<close> returns null: a device whose only family is a
  pure compute family gets no index but \<^verbatim>\<open>VK_ERROR_OUT_OF_DEVICE_MEMORY\<close>, and a device
  with no compute family gets that same code, not \<^verbatim>\<open>VK_ERROR_INITIALIZATION_FAILED\<close>.
\<close>

theorem GetBestComputeQueue_allocation_failure:
  "GetBestComputeQueue False [VK_QUEUE_COMPUTE_BIT] 7 = (VK_ERROR_OUT_OF_DEVICE_MEMORY, 7)
   \<and> compute_not_graphics ([VK_QUEUE_COMPUTE_BIT] ! 0)
   \<and> VK_ERROR_OUT_OF_DEVICE_MEMORY \<noteq> VK_SUCCESS
   \<and> GetBestComputeQueue False [VK_QUEUE_GRAPHICS_BIT] 7 = (VK_ERROR_OUT_OF_DEVICE_MEMORY, 7)
   \<and> \<not> compute_capable ([VK_QUEUE_GRAPHICS_BIT] ! 0)
   \<and> VK_ERROR_OUT_OF_DEVICE_MEMORY \<noteq> VK_ERROR_INITIALIZATION_FAILED"
  by code_simp

section \<open>Properties: one run of a program\<close>

text \<open>
  Every run of \<^verbatim>\<open>RunComputeShader\<close> appends to the history a prefix of \<open>run_calls\<close> that ends
  at one of the ten \<^verbatim>\<open>return\<close> statements; it is the whole list exactly when the result is
  \<^verbatim>\<open>VK_SUCCESS\<close>, and otherwise the result is the driver's answer to the last call made.
\<close>

lemma RunComputeShader_shape:
  assumes "RunComputeShader w tr device q code = (result, tr')"
  shows "\<exists>m l p cp cb qu.
           tr' = tr @ take (length (added tr tr')) (run_calls device q code m l p cp cb qu)
           \<and> length (added tr tr') \<in> {1, 2, 3, 4, 5, 6, 9, 11, 12, 17}
           \<and> (result = VK_SUCCESS \<longleftrightarrow> length (added tr tr') = 17)
           \<and> (result \<noteq> VK_SUCCESS \<longrightarrow> result = fst (respond w tr'))"
  using assms
  by (auto simp: RunComputeShader_def Let_def added_def run_calls_def shader_local_size_x_def
           split: prod.splits if_splits)

lemma RunComputeShader_cases:
  assumes "RunComputeShader w tr device q code = (result, tr')"
  obtains m l p cp cb qu n where
    "added tr tr' = take n (run_calls device q code m l p cp cb qu)"
    "tr' = tr @ added tr tr'"
    "n \<in> {1, 2, 3, 4, 5, 6, 9, 11, 12, 17}"
    "result = VK_SUCCESS \<longleftrightarrow> n = 17"
    "result \<noteq> VK_SUCCESS \<longrightarrow> result = fst (respond w tr')"
proof -
  define n where "n = length (added tr tr')"
  from RunComputeShader_shape [OF assms, folded n_def]
  obtain m l p cp cb qu where
    eq: "tr' = tr @ take n (run_calls device q code m l p cp cb qu)"
    and n: "n \<in> {1, 2, 3, 4, 5, 6, 9, 11, 12, 17}"
    and ok: "result = VK_SUCCESS \<longleftrightarrow> n = 17"
    and bad: "result \<noteq> VK_SUCCESS \<longrightarrow> result = fst (respond w tr')"
    by blast
  have new: "added tr tr' = take n (run_calls device q code m l p cp cb qu)"
    by (subst eq) (simp add: added_def)
  have "tr' = tr @ added tr tr'"
    by (subst new, rule eq)
  with new n ok bad that show thesis by blast
qed

lemma take_run_calls_releases:
  "n \<in> {1, 2, 3, 4, 5, 6, 9, 11, 12} \<Longrightarrow>
     List.map_filter releases (take n (run_calls device q code m l p cp cb qu)) = []"
  by (auto simp: run_calls_def)

lemma take_run_calls_cleanup:
  "filter is_cleanup (take n (run_calls device q code m l p cp cb qu)) = []"
  by (rule filter_False) (auto simp: run_calls_def dest!: in_set_takeD)

lemma take_run_calls_hd:
  "0 < n \<Longrightarrow> hd (take n (run_calls device q code m l p cp cb qu))
     = vkCreateShaderModule device (length code) code"
  by (cases n) (simp_all add: run_calls_def)

lemma run_calls_resources:
  "List.map_filter releases (run_calls device q code m l p cp cb qu)
     = [CommandBuffer, CommandPool, Pipeline, PipelineLayout, ShaderModule]"
  "List.map_filter creates (run_calls device q code m l p cp cb qu)
     = [ShaderModule, PipelineLayout, Pipeline, CommandPool, CommandBuffer]"
  "drop 12 (run_calls device q code m l p cp cb qu)
     = [vkFreeCommandBuffers device cp cb, vkDestroyCommandPool device cp,
        vkDestroyPipeline device p, vkDestroyPipelineLayout device l,
        vkDestroyShaderModule device m]"
  "length (run_calls device q code m l p cp cb qu) = 17"
  by (simp_all add: run_calls_def)

text \<open>
  The same runs, told from the driver's side. For the handles the driver hands back, the run
  stops at the first tested call the driver refuses, returning the driver's answer with that
  call as the last one made; when the driver accepts all nine, the run makes all seventeen
  calls and returns \<^verbatim>\<open>VK_SUCCESS\<close>.
\<close>

lemma handed_back_exists:
  "\<exists>m l p cp cb qu. handed_back w tr (run_calls device q code m l p cp cb qu) m l p cp cb qu"
proof -
  define m where "m = snd (respond w (tr @ [vkCreateShaderModule device (length code) code]))"
  define l where "l = snd (respond w (tr @ [vkCreateShaderModule device (length code) code,
                                          vkCreatePipelineLayout device]))"
  define p where "p = snd (respond w (tr @ [vkCreateShaderModule device (length code) code,
                                          vkCreatePipelineLayout device,
                                          vkCreateComputePipelines device m ''main'' l]))"
  define cp where "cp = snd (respond w (tr @ [vkCreateShaderModule device (length code) code,
                                          vkCreatePipelineLayout device,
                                          vkCreateComputePipelines device m ''main'' l,
                                          vkCreateCommandPool device q]))"
  define cb where "cb = snd (respond w (tr @ [vkCreateShaderModule device (length code) code,
                                          vkCreatePipelineLayout device,
                                          vkCreateComputePipelines device m ''main'' l,
                                          vkCreateCommandPool device q,
                                          vkAllocateCommandBuffers device cp 1]))"
  define qu where "qu = snd (respond w (tr @ [vkCreateShaderModule device (length code) code,
                                          vkCreatePipelineLayout device,
                                          vkCreateComputePipelines device m ''main'' l,
                                          vkCreateCommandPool device q,
                                          vkAllocateCommandBuffers device cp 1,
                                          vkBeginCommandBuffer cb,
                                          vkCmdBindPipeline cb p,
                                          vkCmdDispatch cb 512 1 1,
                                          vkEndCommandBuffer cb,
                                          vkGetDeviceQueue device q 0]))"
  have "handed_back w tr (run_calls device q code m l p cp cb qu) m l p cp cb qu"
    unfolding handed_back_def run_calls_def
    by (simp add: qu_def cb_def cp_def p_def l_def m_def)
  then show ?thesis by blast
qed

lemma RunComputeShader_decided:
  assumes "handed_back w tr (run_calls device q code m l p cp cb qu) m l p cp cb qu"
  shows "RunComputeShader w tr device q code =
     (if \<not> accepts w tr (run_calls device q code m l p cp cb qu) 1
        then (fst (respond w (tr @ take 1 (run_calls device q code m l p cp cb qu))),
              tr @ take 1 (run_calls device q code m l p cp cb qu))
      else if \<not> accepts w tr (run_calls device q code m l p cp cb qu) 2
        then (fst (respond w (tr @ take 2 (run_calls device q code m l p cp cb qu))),
              tr @ take 2 (run_calls device q code m l p cp cb qu))
      else if \<not> accepts w tr (run_calls device q code m l p cp cb qu) 3
        then (fst (respond w (tr @ take 3 (run_calls device q code m l p cp cb qu))),
              tr @ take 3 (run_calls device q code m l p cp cb qu))
      else if \<not> accepts w tr (run_calls device q code m l p cp cb qu) 4
        then (fst (respond w (tr @ take 4 (run_calls device q code m l p cp cb qu))),
              tr @ take 4 (run_calls device q code m l p cp cb qu))
      else if \<not> accepts w tr (run_calls device q code m l p cp cb qu) 5
        then (fst (respond w (tr @ take 5 (run_calls device q code m l p cp cb qu))),
              tr @ take 5 (run_calls device q code m l p cp cb qu))
      else if \<not> accepts w tr (run_calls device q code m l p cp cb qu) 6
        then (fst (respond w (tr @ take 6 (run_calls device q code m l p cp cb qu))),
              tr @ take 6 (run_calls device q code m l p cp cb qu))
      else if \<not> accepts w tr (run_calls device q code m l p cp cb qu) 9
        then (fst (respond w (tr @ take 9 (run_calls device q code m l p cp cb qu))),
              tr @ take 9 (run_calls device q code m l p cp cb qu))
      else if \<not> accepts w tr (run_calls device q code m l p cp cb qu) 11
        then (fst (respond w (tr @ take 11 (run_calls device q code m l p cp cb qu))),
              tr @ take 11 (run_calls device q code m l p cp cb qu))
      else if \<not> accepts w tr (run_calls device q code m l p cp cb qu) 12
        then (fst (respond w (tr @ take 12 (run_calls device q code m l p cp cb qu))),
              tr @ take 12 (run_calls device q code m l p cp cb qu))
      else (VK_SUCCESS, tr @ run_calls device q code m l p cp cb qu))"
  using assms unfolding handed_back_def accepts_def run_calls_def
  by (simp add: RunComputeShader_def Let_def split_beta shader_local_size_x_def)

lemma added_append: "added tr (tr @ xs) = xs"
  by (simp add: added_def)

lemma first_refused:
  fixes S :: "nat set"
  assumes "\<exists>j\<in>S. \<not> P j"
  shows "\<exists>k\<in>S. (\<forall>j\<in>S. j < k \<longrightarrow> P j) \<and> \<not> P k"
proof -
  let ?k = "LEAST j. j \<in> S \<and> \<not> P j"
  from assms have "\<exists>j. j \<in> S \<and> \<not> P j" by blast
  then have k: "?k \<in> S \<and> \<not> P ?k" by (rule LeastI_ex)
  have "P j" if "j \<in> S" "j < ?k" for j
    using that not_less_Least [of j "\<lambda>j. j \<in> S \<and> \<not> P j"] by blast
  with k show ?thesis by blast
qed

lemma RunComputeShader_refused:
  assumes "handed_back w tr (run_calls device q code m l p cp cb qu) m l p cp cb qu"
    and "k \<in> checked_steps"
    and "\<forall>j\<in>checked_steps. j < k \<longrightarrow> accepts w tr (run_calls device q code m l p cp cb qu) j"
    and "\<not> accepts w tr (run_calls device q code m l p cp cb qu) k"
  shows "RunComputeShader w tr device q code
         = (fst (respond w (tr @ take k (run_calls device q code m l p cp cb qu))),
            tr @ take k (run_calls device q code m l p cp cb qu))"
proof -
  define rc where "rc = run_calls device q code m l p cp cb qu"
  note d = RunComputeShader_decided [OF assms(1), folded rc_def]
  note earlier = assms(3) [folded rc_def, unfolded checked_steps_def]
  note this_one = assms(4) [folded rc_def]
  from assms(2) consider "k = 1" | "k = 2" | "k = 3" | "k = 4" | "k = 5" | "k = 6"
    | "k = 9" | "k = 11" | "k = 12"
    unfolding checked_steps_def by blast
  then have "RunComputeShader w tr device q code = (fst (respond w (tr @ take k rc)), tr @ take k rc)"
  proof cases
    case 1 with earlier this_one show ?thesis by (simp add: d)
  next
    case 2 with earlier this_one show ?thesis by (simp add: d)
  next
    case 3 with earlier this_one show ?thesis by (simp add: d)
  next
    case 4 with earlier this_one show ?thesis by (simp add: d)
  next
    case 5 with earlier this_one show ?thesis by (simp add: d)
  next
    case 6 with earlier this_one show ?thesis by (simp add: d)
  next
    case 7 with earlier this_one show ?thesis by (simp add: d)
  next
    case 8 with earlier this_one show ?thesis by (simp add: d)
  next
    case 9 with earlier this_one show ?thesis by (simp add: d)
  qed
  then show ?thesis by (simp only: rc_def)
qed

lemma RunComputeShader_accepted:
  assumes "handed_back w tr (run_calls device q code m l p cp cb qu) m l p cp cb qu"
    and "\<forall>j\<in>checked_steps. accepts w tr (run_calls device q code m l p cp cb qu) j"
  shows "RunComputeShader w tr device q code
         = (VK_SUCCESS, tr @ run_calls device q code m l p cp cb qu)"
proof -
  define rc where "rc = run_calls device q code m l p cp cb qu"
  note d = RunComputeShader_decided [OF assms(1), folded rc_def]
  from assms(2) [folded rc_def, unfolded checked_steps_def]
  have "RunComputeShader w tr device q code = (VK_SUCCESS, tr @ rc)"
    by (simp add: d)
  then show ?thesis by (simp only: rc_def)
qed

lemma RunComputeShader_outcome:
  assumes "handed_back w tr (run_calls device q code m l p cp cb qu) m l p cp cb qu"
  obtains (refused) k where
      "k \<in> checked_steps"
      "\<forall>j\<in>checked_steps. j < k \<longrightarrow> accepts w tr (run_calls device q code m l p cp cb qu) j"
      "\<not> accepts w tr (run_calls device q code m l p cp cb qu) k"
      "RunComputeShader w tr device q code
         = (fst (respond w (tr @ take k (run_calls device q code m l p cp cb qu))),
            tr @ take k (run_calls device q code m l p cp cb qu))"
    | (accepted)
      "\<forall>j\<in>checked_steps. accepts w tr (run_calls device q code m l p cp cb qu) j"
      "RunComputeShader w tr device q code
         = (VK_SUCCESS, tr @ run_calls device q code m l p cp cb qu)"
proof (cases "\<forall>j\<in>checked_steps. accepts w tr (run_calls device q code m l p cp cb qu) j")
  case True
  with RunComputeShader_accepted [OF assms True] accepted show thesis by blast
next
  case False
  then have "\<exists>j\<in>checked_steps. \<not> accepts w tr (run_calls device q code m l p cp cb qu) j"
    by blast
  from first_refused [OF this] obtain k where
    k: "k \<in> checked_steps"
       "\<forall>j\<in>checked_steps. j < k \<longrightarrow> accepts w tr (run_calls device q code m l p cp cb qu) j"
       "\<not> accepts w tr (run_calls device q code m l p cp cb qu) k"
    by blast
  from RunComputeShader_refused [OF assms k] k refused show thesis by blast
qed

lemma refused_prefix_has_no_release:
  "k \<in> checked_steps \<Longrightarrow>
     List.map_filter releases (take k (run_calls device q code m l p cp cb qu)) = []"
  by (rule take_run_calls_releases) (simp add: checked_steps_def)

text \<open>
  Claim C6. For the handles the driver hands back: when the driver accepts every tested call
  (which is all that a valid binary comes to for this program), the run returns
  \<^verbatim>\<open>VK_SUCCESS\<close> having made exactly the calls of \<open>run_calls\<close>, whose last five free the
  command buffer, destroy the command pool, destroy the pipeline, destroy the pipeline layout
  and destroy the shader module, in this order and on the handles the run created; no release
  comes before them, and the order of the releases is the reverse of the order of the
  creations (module, layout, pipeline, pool, command buffer). The order depends neither on the
  binary nor on the handles. The five calls return nothing, so none can fail: a run that makes
  a release is the full run and returns \<^verbatim>\<open>VK_SUCCESS\<close>, and a run in which the driver refuses
  a tested call fails and releases nothing.
\<close>

theorem RunComputeShader_teardown_order:
  "\<exists>m l p cp cb qu.
      handed_back w tr (run_calls device q code m l p cp cb qu) m l p cp cb qu
      \<and> ((\<forall>j\<in>checked_steps. accepts w tr (run_calls device q code m l p cp cb qu) j) \<longrightarrow>
            RunComputeShader w tr device q code
            = (VK_SUCCESS, tr @ run_calls device q code m l p cp cb qu))
      \<and> drop 12 (run_calls device q code m l p cp cb qu)
          = [vkFreeCommandBuffers device cp cb, vkDestroyCommandPool device cp,
             vkDestroyPipeline device p, vkDestroyPipelineLayout device l,
             vkDestroyShaderModule device m]
      \<and> List.map_filter releases (take 12 (run_calls device q code m l p cp cb qu)) = []
      \<and> List.map_filter releases (run_calls device q code m l p cp cb qu)
          = [CommandBuffer, CommandPool, Pipeline, PipelineLayout, ShaderModule]
      \<and> List.map_filter creates (run_calls device q code m l p cp cb qu)
          = [ShaderModule, PipelineLayout, Pipeline, CommandPool, CommandBuffer]
      \<and> List.map_filter releases (run_calls device q code m l p cp cb qu)
          = rev (List.map_filter creates (run_calls device q code m l p cp cb qu))
      \<and> ((\<exists>j\<in>checked_steps. \<not> accepts w tr (run_calls device q code m l p cp cb qu) j) \<longrightarrow>
            fst (RunComputeShader w tr device q code) \<noteq> VK_SUCCESS
            \<and> List.map_filter releases (added tr (snd (RunComputeShader w tr device q code))) = [])
      \<and> (List.map_filter releases (added tr (snd (RunComputeShader w tr device q code))) \<noteq> [] \<longrightarrow>
            fst (RunComputeShader w tr device q code) = VK_SUCCESS
            \<and> added tr (snd (RunComputeShader w tr device q code))
               = run_calls device q code m l p cp cb qu)"
proof -
  from handed_back_exists [of w tr device q code] obtain m l p cp cb qu where
    hb: "handed_back w tr (run_calls device q code m l p cp cb qu) m l p cp cb qu"
    by blast
  let ?rc = "run_calls device q code m l p cp cb qu"
  let ?run = "RunComputeShader w tr device q code"
  have acc: "(\<forall>j\<in>checked_steps. accepts w tr ?rc j) \<longrightarrow> ?run = (VK_SUCCESS, tr @ ?rc)"
    using RunComputeShader_accepted [OF hb] by blast
  have pre: "List.map_filter releases (take 12 ?rc) = []"
    by (rule take_run_calls_releases) simp
  have rel: "List.map_filter releases ?rc = rev (List.map_filter creates ?rc)"
    by (simp only: run_calls_resources rev.simps append.simps)
  from hb have outcome: "(fst ?run \<noteq> VK_SUCCESS \<and> List.map_filter releases (added tr (snd ?run)) = []
                  \<and> (\<exists>j\<in>checked_steps. \<not> accepts w tr ?rc j))
                 \<or> (?run = (VK_SUCCESS, tr @ ?rc) \<and> (\<forall>j\<in>checked_steps. accepts w tr ?rc j))"
  proof (cases rule: RunComputeShader_outcome)
    case (refused k)
    from refused(3) have "fst (respond w (tr @ take k ?rc)) \<noteq> VK_SUCCESS"
      by (simp add: accepts_def)
    with refused show ?thesis
      by (auto simp: added_append refused_prefix_has_no_release)
  next
    case accepted
    then show ?thesis by blast
  qed
  have ref: "(\<exists>j\<in>checked_steps. \<not> accepts w tr ?rc j) \<longrightarrow>
            fst ?run \<noteq> VK_SUCCESS \<and> List.map_filter releases (added tr (snd ?run)) = []"
    using outcome by blast
  have only: "List.map_filter releases (added tr (snd ?run)) \<noteq> [] \<longrightarrow>
            fst ?run = VK_SUCCESS \<and> added tr (snd ?run) = ?rc"
    using outcome by (auto simp: added_append)
  from hb acc pre rel ref only run_calls_resources(1-3) [of device q code m l p cp cb qu]
  show ?thesis by blast
qed

text \<open>
  Two runs on the example machine, from an empty history, with a one-word binary: one where
  the driver accepts everything, one where it refuses the submission.
\<close>

lemma example_run_ok:
  "RunComputeShader (example_world respond_ok) [] 8 1 [0x07230203]
   = (VK_SUCCESS,
      [vkCreateShaderModule 8 1 [0x07230203], vkCreatePipelineLayout 8,
       vkCreateComputePipelines 8 1 ''main'' 2, vkCreateCommandPool 8 1,
       vkAllocateCommandBuffers 8 4 1, vkBeginCommandBuffer 5, vkCmdBindPipeline 5 3,
       vkCmdDispatch 5 512 1 1, vkEndCommandBuffer 5, vkGetDeviceQueue 8 1 0,
       vkQueueSubmit 10 5, vkQueueWaitIdle 10, vkFreeCommandBuffers 8 4 5,
       vkDestroyCommandPool 8 4, vkDestroyPipeline 8 3, vkDestroyPipelineLayout 8 2,
       vkDestroyShaderModule 8 1])"
  by code_simp

lemma example_run_submit_fails:
  "RunComputeShader (example_world (respond_bad is_vkQueueSubmit (- 4))) [] 8 1 [0x07230203]
   = (- 4,
      [vkCreateShaderModule 8 1 [0x07230203], vkCreatePipelineLayout 8,
       vkCreateComputePipelines 8 1 ''main'' 2, vkCreateCommandPool 8 1,
       vkAllocateCommandBuffers 8 4 1, vkBeginCommandBuffer 5, vkCmdBindPipeline 5 3,
       vkCmdDispatch 5 512 1 1, vkEndCommandBuffer 5, vkGetDeviceQueue 8 1 0,
       vkQueueSubmit 10 5])"
  by code_simp

theorem RunComputeShader_teardown_order_witness:
  "RunComputeShader (example_world respond_ok) [] 8 1 [0x07230203]
   = (VK_SUCCESS,
      [vkCreateShaderModule 8 1 [0x07230203], vkCreatePipelineLayout 8,
       vkCreateComputePipelines 8 1 ''main'' 2, vkCreateCommandPool 8 1,
       vkAllocateCommandBuffers 8 4 1, vkBeginCommandBuffer 5, vkCmdBindPipeline 5 3,
       vkCmdDispatch 5 512 1 1, vkEndCommandBuffer 5, vkGetDeviceQueue 8 1 0,
       vkQueueSubmit 10 5, vkQueueWaitIdle 10, vkFreeCommandBuffers 8 4 5,
       vkDestroyCommandPool 8 4, vkDestroyPipeline 8 3, vkDestroyPipelineLayout 8 2,
       vkDestroyShaderModule 8 1])
   \<and> List.map_filter releases
        [vkCreateShaderModule 8 1 [0x07230203], vkCreatePipelineLayout 8,
         vkCreateComputePipelines 8 1 ''main'' 2, vkCreateCommandPool 8 1,
         vkAllocateCommandBuffers 8 4 1, vkBeginCommandBuffer 5, vkCmdBindPipeline 5 3,
         vkCmdDispatch 5 512 1 1, vkEndCommandBuffer 5, vkGetDeviceQueue 8 1 0,
         vkQueueSubmit 10 5, vkQueueWaitIdle 10, vkFreeCommandBuffers 8 4 5,
         vkDestroyCommandPool 8 4, vkDestroyPipeline 8 3, vkDestroyPipelineLayout 8 2,
         vkDestroyShaderModule 8 1]
      = [CommandBuffer, CommandPool, Pipeline, PipelineLayout, ShaderModule]"
proof -
  from RunComputeShader_teardown_order [of "example_world respond_ok" "[]" 8 1 "[0x07230203]"]
  obtain m l p cp cb qu where
    acc: "(\<forall>j\<in>checked_steps.
             accepts (example_world respond_ok) [] (run_calls 8 1 [0x07230203] m l p cp cb qu) j) \<longrightarrow>
          RunComputeShader (example_world respond_ok) [] 8 1 [0x07230203]
          = (VK_SUCCESS, [] @ run_calls 8 1 [0x07230203] m l p cp cb qu)"
    and rel: "List.map_filter releases (run_calls 8 1 [0x07230203] m l p cp cb qu)
              = [CommandBuffer, CommandPool, Pipeline, PipelineLayout, ShaderModule]"
    by blast
  have "\<forall>j\<in>checked_steps.
          accepts (example_world respond_ok) [] (run_calls 8 1 [0x07230203] m l p cp cb qu) j"
    by (simp add: accepts_def example_world_def respond_ok_def)
  with acc have "RunComputeShader (example_world respond_ok) [] 8 1 [0x07230203]
                 = (VK_SUCCESS, run_calls 8 1 [0x07230203] m l p cp cb qu)"
    by simp
  with example_run_ok rel show ?thesis by simp
qed

lemma take_run_calls_not_recorded:
  "n \<in> {1, 2, 3, 4, 5, 6} \<Longrightarrow>
     filter is_recorded (take n (run_calls device q code m l p cp cb qu)) = []"
  by (auto simp: run_calls_def)

lemma take_run_calls_recorded:
  "n \<in> {9, 11, 12, 17} \<Longrightarrow>
     take n (run_calls device q code m l p cp cb qu)
       = take 6 (run_calls device q code m l p cp cb qu)
         @ [vkCmdBindPipeline cb p, vkCmdDispatch cb 512 1 1]
         @ drop 8 (take n (run_calls device q code m l p cp cb qu))
     \<and> filter is_recorded (take 6 (run_calls device q code m l p cp cb qu)) = []
     \<and> filter is_recorded (drop 8 (take n (run_calls device q code m l p cp cb qu))) = []"
  by (auto simp: run_calls_def)

lemma take_run_calls_dispatch:
  "vkCmdDispatch c x y z \<in> set (take n (run_calls device q code m l p cp cb qu))
     \<Longrightarrow> x = 512 \<and> y = 1 \<and> z = 1"
  by (auto simp: run_calls_def dest!: in_set_takeD)

lemma checked_steps_split:
  "k \<in> checked_steps \<Longrightarrow> k \<le> 6 \<Longrightarrow> k \<in> {1, 2, 3, 4, 5, 6}"
  "k \<in> checked_steps \<Longrightarrow> \<not> k \<le> 6 \<Longrightarrow> k \<in> {9, 11, 12, 17}"
  by (auto simp: checked_steps_def)

text \<open>
  Claim C7. For the handles the driver hands back: when the driver accepts the tested calls up
  to \<^verbatim>\<open>vkBeginCommandBuffer\<close> (the first six calls), the run goes on with exactly one
  \<^verbatim>\<open>vkCmdBindPipeline\<close> of the created pipeline immediately followed by exactly one
  \<^verbatim>\<open>vkCmdDispatch\<close> with the workgroup counts 512, 1 and 1, and records nothing else, before
  or after; when the driver refuses one of those six calls, the run records nothing. In every
  run, every dispatch has the counts 512, 1 and 1, the first being the constant
  \<^verbatim>\<open>shader_local_size_x\<close>. The binary and its size occur only as the arguments of
  \<^verbatim>\<open>vkCreateShaderModule\<close>.
\<close>

theorem RunComputeShader_records_one_dispatch:
  "\<exists>m l p cp cb qu.
      handed_back w tr (run_calls device q code m l p cp cb qu) m l p cp cb qu
      \<and> ((\<forall>j\<in>checked_steps. j \<le> 6 \<longrightarrow> accepts w tr (run_calls device q code m l p cp cb qu) j) \<longrightarrow>
            (\<exists>post. added tr (snd (RunComputeShader w tr device q code))
                      = take 6 (run_calls device q code m l p cp cb qu)
                        @ [vkCmdBindPipeline cb p, vkCmdDispatch cb 512 1 1] @ post
                    \<and> filter is_recorded post = [])
            \<and> filter is_recorded (added tr (snd (RunComputeShader w tr device q code)))
                = [vkCmdBindPipeline cb p, vkCmdDispatch cb 512 1 1])
      \<and> filter is_recorded (take 6 (run_calls device q code m l p cp cb qu)) = []
      \<and> ((\<exists>j\<in>checked_steps. j \<le> 6 \<and> \<not> accepts w tr (run_calls device q code m l p cp cb qu) j) \<longrightarrow>
            filter is_recorded (added tr (snd (RunComputeShader w tr device q code))) = [])
      \<and> (\<forall>c x y z. vkCmdDispatch c x y z \<in> set (added tr (snd (RunComputeShader w tr device q code)))
            \<longrightarrow> x = 512 \<and> y = 1 \<and> z = 1)
      \<and> (512 :: u32) = of_nat shader_local_size_x"
proof -
  from handed_back_exists [of w tr device q code] obtain m l p cp cb qu where
    hb: "handed_back w tr (run_calls device q code m l p cp cb qu) m l p cp cb qu"
    by blast
  let ?rc = "run_calls device q code m l p cp cb qu"
  let ?new = "added tr (snd (RunComputeShader w tr device q code))"
  have size: "(512 :: u32) = of_nat shader_local_size_x"
    by (simp add: shader_local_size_x_def)
  have pre: "filter is_recorded (take 6 ?rc) = []"
    by (rule take_run_calls_not_recorded) simp
  from hb obtain n where new: "?new = take n ?rc"
    and early: "n \<in> checked_steps \<longrightarrow> \<not> accepts w tr ?rc n
                  \<and> (\<forall>j\<in>checked_steps. j < n \<longrightarrow> accepts w tr ?rc j)"
    and n: "n \<in> checked_steps \<or> n = 17"
    and full: "n = 17 \<longrightarrow> (\<forall>j\<in>checked_steps. accepts w tr ?rc j)"
  proof (cases rule: RunComputeShader_outcome)
    case (refused k)
    from refused(1) have "k \<noteq> 17" by (auto simp: checked_steps_def)
    with refused that [of k] show thesis by (simp add: added_append)
  next
    case accepted
    have "17 \<notin> checked_steps" by (simp add: checked_steps_def)
    with accepted that [of 17] show thesis
      by (simp add: added_append run_calls_resources(4))
  qed
  have dispatch: "\<forall>c x y z. vkCmdDispatch c x y z \<in> set ?new \<longrightarrow> x = 512 \<and> y = 1 \<and> z = 1"
    unfolding new by (blast dest: take_run_calls_dispatch)
  have yes: "(\<exists>post. ?new = take 6 ?rc @ [vkCmdBindPipeline cb p, vkCmdDispatch cb 512 1 1] @ post
                    \<and> filter is_recorded post = [])
            \<and> filter is_recorded ?new = [vkCmdBindPipeline cb p, vkCmdDispatch cb 512 1 1]"
    if all: "\<forall>j\<in>checked_steps. j \<le> 6 \<longrightarrow> accepts w tr ?rc j"
  proof -
    have "\<not> n \<le> 6" using all early n by auto
    with n have late: "n \<in> {9, 11, 12, 17}" by (auto dest: checked_steps_split(2))
    from take_run_calls_recorded [OF late, of device q code m l p cp cb qu]
    have split: "?new = take 6 ?rc @ [vkCmdBindPipeline cb p, vkCmdDispatch cb 512 1 1]
                      @ drop 8 ?new"
      and post: "filter is_recorded (drop 8 ?new) = []"
      unfolding new by blast+
    have "filter is_recorded ?new = [vkCmdBindPipeline cb p, vkCmdDispatch cb 512 1 1]"
      by (subst split) (simp add: pre post)
    with split post show ?thesis by blast
  qed
  have no: "filter is_recorded ?new = []"
    if some: "\<exists>j\<in>checked_steps. j \<le> 6 \<and> \<not> accepts w tr ?rc j"
  proof -
    from some obtain j where j: "j \<in> checked_steps" "j \<le> 6" "\<not> accepts w tr ?rc j" by blast
    from j full n have "n \<in> checked_steps" by blast
    with early j have "\<not> j < n" by blast
    with j(2) have "n \<le> 6" by simp
    with \<open>n \<in> checked_steps\<close> have "n \<in> {1, 2, 3, 4, 5, 6}" by (rule checked_steps_split(1))
    then show ?thesis unfolding new by (rule take_run_calls_not_recorded)
  qed
  from hb yes no pre dispatch size show ?thesis by blast
qed

theorem RunComputeShader_records_one_dispatch_witness:
  "RunComputeShader (example_world (respond_bad is_vkQueueSubmit (- 4))) [] 8 1 [0x07230203]
   = (- 4,
      [vkCreateShaderModule 8 1 [0x07230203], vkCreatePipelineLayout 8,
       vkCreateComputePipelines 8 1 ''main'' 2, vkCreateCommandPool 8 1,
       vkAllocateCommandBuffers 8 4 1, vkBeginCommandBuffer 5, vkCmdBindPipeline 5 3,
       vkCmdDispatch 5 512 1 1, vkEndCommandBuffer 5, vkGetDeviceQueue 8 1 0,
       vkQueueSubmit 10 5])
   \<and> filter is_recorded
        [vkCreateShaderModule 8 1 [0x07230203], vkCreatePipelineLayout 8,
         vkCreateComputePipelines 8 1 ''main'' 2, vkCreateCommandPool 8 1,
         vkAllocateCommandBuffers 8 4 1, vkBeginCommandBuffer 5, vkCmdBindPipeline 5 3,
         vkCmdDispatch 5 512 1 1, vkEndCommandBuffer 5, vkGetDeviceQueue 8 1 0,
         vkQueueSubmit 10 5]
      = [vkCmdBindPipeline 5 3, vkCmdDispatch 5 512 1 1]"
proof -
  let ?w = "example_world (respond_bad is_vkQueueSubmit (- 4))"
  from RunComputeShader_records_one_dispatch [of ?w "[]" 8 1 "[0x07230203]"]
  obtain m l p cp cb qu where
    hb: "handed_back ?w [] (run_calls 8 1 [0x07230203] m l p cp cb qu) m l p cp cb qu"
    and rec: "(\<forall>j\<in>checked_steps. j \<le> 6 \<longrightarrow>
                 accepts ?w [] (run_calls 8 1 [0x07230203] m l p cp cb qu) j) \<longrightarrow>
              (\<exists>post. added [] (snd (RunComputeShader ?w [] 8 1 [0x07230203]))
                      = take 6 (run_calls 8 1 [0x07230203] m l p cp cb qu)
                        @ [vkCmdBindPipeline cb p, vkCmdDispatch cb 512 1 1] @ post
                    \<and> filter is_recorded post = [])
              \<and> filter is_recorded (added [] (snd (RunComputeShader ?w [] 8 1 [0x07230203])))
                  = [vkCmdBindPipeline cb p, vkCmdDispatch cb 512 1 1]"
    by (elim exE conjE) (rule that, assumption+)
  from hb have h: "cb = 5" "p = 3"
    by (simp_all add: handed_back_def run_calls_def example_world_def respond_bad_def)
  have "\<forall>j\<in>checked_steps. j \<le> 6 \<longrightarrow>
          accepts ?w [] (run_calls 8 1 [0x07230203] m l p cp cb qu) j"
    by (simp add: checked_steps_def accepts_def run_calls_def example_world_def respond_bad_def)
  with rec h example_run_submit_fails show ?thesis
    by (simp add: added_def)
qed

section \<open>Properties: failure of a run, and the harness\<close>

lemma RunComputeShader_no_cleanup:
  assumes "RunComputeShader w tr device q code = (result, tr')"
  shows "tr' = tr @ added tr tr' \<and> filter is_cleanup (added tr tr') = [] \<and> added tr tr' \<noteq> []"
proof -
  from assms obtain m l p cp cb qu n where
    new: "added tr tr' = take n (run_calls device q code m l p cp cb qu)"
    and ext: "tr' = tr @ added tr tr'"
    and n: "n \<in> {1, 2, 3, 4, 5, 6, 9, 11, 12, 17}"
    by (rule RunComputeShader_cases)
  from n have "0 < n" by auto
  then have "take n (run_calls device q code m l p cp cb qu) \<noteq> []"
    by (simp add: run_calls_def)
  with new ext show ?thesis
    by (simp add: take_run_calls_cleanup)
qed

lemma RunComputeShader_failure:
  assumes "RunComputeShader w tr device q code = (result, tr')" and "result \<noteq> VK_SUCCESS"
  shows "result = fst (respond w tr') \<and> List.map_filter releases (added tr tr') = []"
proof -
  from assms(1) obtain m l p cp cb qu n where
    new: "added tr tr' = take n (run_calls device q code m l p cp cb qu)"
    and n: "n \<in> {1, 2, 3, 4, 5, 6, 9, 11, 12, 17}"
    and ok: "result = VK_SUCCESS \<longleftrightarrow> n = 17"
    and bad: "result \<noteq> VK_SUCCESS \<longrightarrow> result = fst (respond w tr')"
    by (rule RunComputeShader_cases)
  from n ok assms(2) have "n \<in> {1, 2, 3, 4, 5, 6, 9, 11, 12}" by auto
  then have "List.map_filter releases (added tr tr') = []"
    unfolding new by (rule take_run_calls_releases)
  with bad assms(2) show ?thesis by simp
qed

lemma main_runs_and_cleanup_first_fails:
  assumes "readFile (files w) ''GLSLComputeShader.comp.spv'' = Inr code"
    and "RunComputeShader w tr device q code = (result, tr')" and "result \<noteq> VK_SUCCESS"
  shows "main_runs_and_cleanup w tr instance dm rc device q = (Exited EXIT_FAILURE, tr')"
  using assms by (simp add: main_runs_and_cleanup_def)

lemma main_runs_and_cleanup_second_fails:
  assumes "readFile (files w) ''GLSLComputeShader.comp.spv'' = Inr glsl"
    and "RunComputeShader w tr0 device q glsl = (VK_SUCCESS, tr)"
    and "readFile (files w) ''HLSLComputeShader.comp.spv'' = Inr code"
    and "RunComputeShader w tr device q code = (result, tr')" and "result \<noteq> VK_SUCCESS"
  shows "main_runs_and_cleanup w tr0 instance dm rc device q = (Exited EXIT_FAILURE, tr')"
  using assms by (simp add: main_runs_and_cleanup_def)

lemma main_runs_and_cleanup_exit:
  assumes "main_runs_and_cleanup w tr instance dm rc device q = (Exited e, tr')"
  shows "e = EXIT_FAILURE \<and> filter is_cleanup tr' = filter is_cleanup tr"
proof (cases "readFile (files w) ''GLSLComputeShader.comp.spv''")
  case (Inl x)
  with assms show ?thesis by (simp add: main_runs_and_cleanup_def)
next
  case (Inr glsl)
  note glsl = Inr
  obtain r1 tr1 where run1: "RunComputeShader w tr device q glsl = (r1, tr1)"
    by (cases "RunComputeShader w tr device q glsl")
  from RunComputeShader_no_cleanup [OF run1]
  have c1: "filter is_cleanup tr1 = filter is_cleanup tr"
    by (metis append_Nil2 filter_append)
  show ?thesis
  proof (cases "r1 = VK_SUCCESS")
    case False
    with assms glsl run1 c1 show ?thesis by (auto simp: main_runs_and_cleanup_def)
  next
    case True
    note ok1 = True
    show ?thesis
    proof (cases "readFile (files w) ''HLSLComputeShader.comp.spv''")
      case (Inl x)
      with assms glsl run1 ok1 show ?thesis by (simp add: main_runs_and_cleanup_def)
    next
      case (Inr hlsl)
      note hlsl = Inr
      obtain r2 tr2 where run2: "RunComputeShader w tr1 device q hlsl = (r2, tr2)"
        by (cases "RunComputeShader w tr1 device q hlsl")
      from RunComputeShader_no_cleanup [OF run2]
      have c2: "filter is_cleanup tr2 = filter is_cleanup tr1"
        by (metis append_Nil2 filter_append)
      show ?thesis
      proof (cases "r2 = VK_SUCCESS")
        case False
        with assms glsl run1 ok1 hlsl run2 c1 c2 show ?thesis
          by (auto simp: main_runs_and_cleanup_def)
      next
        case True
        with assms glsl run1 ok1 hlsl run2 show ?thesis
          by (auto simp: main_runs_and_cleanup_def Let_def split: sum.splits)
      qed
    qed
  qed
qed

lemma main_exit:
  assumes "main w = (Exited e, tr')"
  shows "e = EXIT_FAILURE \<and> filter is_cleanup tr' = []"
  using assms
  by (auto simp: main_def Let_def CreateHeadlessVulkanInstance_def CreateDebugMessenger_def
        CreateReportCallback_def EnumerateDevices_def CreateDevice_def
        split: prod.splits if_splits option.splits list.splits
        dest!: main_runs_and_cleanup_exit)

text \<open>
  Claim C5, as amended. For the handles the driver hands back: when the driver refuses a
  tested call, having accepted the tested calls before it, \<^verbatim>\<open>RunComputeShader\<close> returns the
  driver's answer to that call, which is not \<^verbatim>\<open>VK_SUCCESS\<close>, and that call is the last one of
  the run; the run has released none of the resources it created and made none of the caller's
  cleanup calls. The caller does not clean up either: whether the failing run is the first of
  \<^verbatim>\<open>main\<close> or the second, after a first in which the driver accepted everything, \<^verbatim>\<open>main\<close> ends
  in \<^verbatim>\<open>exit(EXIT_FAILURE)\<close> with the history ending at the refused call, and no run of \<^verbatim>\<open>main\<close>
  that ends through \<^verbatim>\<open>EXIT_ON_BAD_RESULT\<close> has made a cleanup call.
\<close>

theorem RunComputeShader_failure_is_fatal_without_cleanup:
  "\<exists>m l p cp cb qu.
      handed_back w tr (run_calls device q code m l p cp cb qu) m l p cp cb qu
      \<and> (\<forall>k\<in>checked_steps.
            (\<forall>j\<in>checked_steps. j < k \<longrightarrow> accepts w tr (run_calls device q code m l p cp cb qu) j)
            \<and> \<not> accepts w tr (run_calls device q code m l p cp cb qu) k \<longrightarrow>
              RunComputeShader w tr device q code
              = (fst (respond w (tr @ take k (run_calls device q code m l p cp cb qu))),
                 tr @ take k (run_calls device q code m l p cp cb qu))
              \<and> fst (respond w (tr @ take k (run_calls device q code m l p cp cb qu))) \<noteq> VK_SUCCESS
              \<and> List.map_filter releases (take k (run_calls device q code m l p cp cb qu)) = []
              \<and> filter is_cleanup (take k (run_calls device q code m l p cp cb qu)) = []
              \<and> (readFile (files w) ''GLSLComputeShader.comp.spv'' = Inr code \<longrightarrow>
                    main_runs_and_cleanup w tr instance messenger report device q
                    = (Exited EXIT_FAILURE, tr @ take k (run_calls device q code m l p cp cb qu)))
              \<and> (\<forall>glsl tr0 m0 l0 p0 cp0 cb0 qu0.
                    handed_back w tr0 (run_calls device q glsl m0 l0 p0 cp0 cb0 qu0) m0 l0 p0 cp0 cb0 qu0
                    \<and> (\<forall>j\<in>checked_steps.
                          accepts w tr0 (run_calls device q glsl m0 l0 p0 cp0 cb0 qu0) j)
                    \<and> tr = tr0 @ run_calls device q glsl m0 l0 p0 cp0 cb0 qu0
                    \<and> readFile (files w) ''GLSLComputeShader.comp.spv'' = Inr glsl
                    \<and> readFile (files w) ''HLSLComputeShader.comp.spv'' = Inr code \<longrightarrow>
                    main_runs_and_cleanup w tr0 instance messenger report device q
                    = (Exited EXIT_FAILURE, tr @ take k (run_calls device q code m l p cp cb qu))))
      \<and> (\<forall>e. fst (main w) = Exited e \<longrightarrow> e = EXIT_FAILURE \<and> filter is_cleanup (snd (main w)) = [])"
proof -
  from handed_back_exists [of w tr device q code] obtain m l p cp cb qu where
    hb: "handed_back w tr (run_calls device q code m l p cp cb qu) m l p cp cb qu"
    by blast
  let ?rc = "run_calls device q code m l p cp cb qu"
  have step: "RunComputeShader w tr device q code = (fst (respond w (tr @ take k ?rc)), tr @ take k ?rc)
              \<and> fst (respond w (tr @ take k ?rc)) \<noteq> VK_SUCCESS
              \<and> List.map_filter releases (take k ?rc) = []
              \<and> filter is_cleanup (take k ?rc) = []
              \<and> (readFile (files w) ''GLSLComputeShader.comp.spv'' = Inr code \<longrightarrow>
                    main_runs_and_cleanup w tr instance messenger report device q
                    = (Exited EXIT_FAILURE, tr @ take k ?rc))
              \<and> (\<forall>glsl tr0 m0 l0 p0 cp0 cb0 qu0.
                    handed_back w tr0 (run_calls device q glsl m0 l0 p0 cp0 cb0 qu0) m0 l0 p0 cp0 cb0 qu0
                    \<and> (\<forall>j\<in>checked_steps.
                          accepts w tr0 (run_calls device q glsl m0 l0 p0 cp0 cb0 qu0) j)
                    \<and> tr = tr0 @ run_calls device q glsl m0 l0 p0 cp0 cb0 qu0
                    \<and> readFile (files w) ''GLSLComputeShader.comp.spv'' = Inr glsl
                    \<and> readFile (files w) ''HLSLComputeShader.comp.spv'' = Inr code \<longrightarrow>
                    main_runs_and_cleanup w tr0 instance messenger report device q
                    = (Exited EXIT_FAILURE, tr @ take k ?rc))"
    if k: "k \<in> checked_steps" and earlier: "\<forall>j\<in>checked_steps. j < k \<longrightarrow> accepts w tr ?rc j"
      and refused: "\<not> accepts w tr ?rc k" for k
  proof -
    note run = RunComputeShader_refused [OF hb k earlier refused]
    from refused have bad: "fst (respond w (tr @ take k ?rc)) \<noteq> VK_SUCCESS"
      by (simp add: accepts_def)
    have rel: "List.map_filter releases (take k ?rc) = []"
      using k by (rule refused_prefix_has_no_release)
    have cln: "filter is_cleanup (take k ?rc) = []"
      by (rule take_run_calls_cleanup)
    have first: "readFile (files w) ''GLSLComputeShader.comp.spv'' = Inr code \<longrightarrow>
                    main_runs_and_cleanup w tr instance messenger report device q
                    = (Exited EXIT_FAILURE, tr @ take k ?rc)"
      using main_runs_and_cleanup_first_fails [OF _ run bad] by blast
    have second: "main_runs_and_cleanup w tr0 instance messenger report device q
                    = (Exited EXIT_FAILURE, tr @ take k ?rc)"
      if hb0: "handed_back w tr0 (run_calls device q glsl m0 l0 p0 cp0 cb0 qu0) m0 l0 p0 cp0 cb0 qu0"
        and all0: "\<forall>j\<in>checked_steps. accepts w tr0 (run_calls device q glsl m0 l0 p0 cp0 cb0 qu0) j"
        and tr: "tr = tr0 @ run_calls device q glsl m0 l0 p0 cp0 cb0 qu0"
        and g: "readFile (files w) ''GLSLComputeShader.comp.spv'' = Inr glsl"
        and h: "readFile (files w) ''HLSLComputeShader.comp.spv'' = Inr code"
      for glsl tr0 m0 l0 p0 cp0 cb0 qu0
    proof -
      from RunComputeShader_accepted [OF hb0 all0] tr
      have run0: "RunComputeShader w tr0 device q glsl = (VK_SUCCESS, tr)" by simp
      from main_runs_and_cleanup_second_fails [OF g run0 h run bad] show ?thesis .
    qed
    from run bad rel cln first second show ?thesis by blast
  qed
  have e: "\<forall>e. fst (main w) = Exited e \<longrightarrow> e = EXIT_FAILURE \<and> filter is_cleanup (snd (main w)) = []"
    using main_exit [of w] by (metis prod.collapse)
  from hb step e show ?thesis by blast
qed

text \<open>
  The example machine with a driver that refuses every shader module, in a history that
  holds the creation of device 8: the run that \<^verbatim>\<open>main\<close> starts there fails at its first call.
\<close>

lemma example_run_module_fails:
  "RunComputeShader
     (example_world (respond_bad is_vkCreateShaderModule VK_ERROR_INITIALIZATION_FAILED))
     [vkCreateDevice 7 1 1] 8 1 [0x07230203, 0, 0, 0]
   = (VK_ERROR_INITIALIZATION_FAILED,
      [vkCreateDevice 7 1 1, vkCreateShaderModule 8 4 [0x07230203, 0, 0, 0]])"
  "VK_ERROR_INITIALIZATION_FAILED \<noteq> VK_SUCCESS"
  "readFile (files (example_world (respond_bad is_vkCreateShaderModule VK_ERROR_INITIALIZATION_FAILED)))
     ''GLSLComputeShader.comp.spv'' = Inr [0x07230203, 0, 0, 0]"
  by code_simp+

theorem RunComputeShader_failure_is_fatal_without_cleanup_witness:
  "RunComputeShader
     (example_world (respond_bad is_vkCreateShaderModule VK_ERROR_INITIALIZATION_FAILED))
     [vkCreateDevice 7 1 1] 8 1 [0x07230203, 0, 0, 0]
   = (VK_ERROR_INITIALIZATION_FAILED,
      [vkCreateDevice 7 1 1, vkCreateShaderModule 8 4 [0x07230203, 0, 0, 0]])
   \<and> VK_ERROR_INITIALIZATION_FAILED \<noteq> VK_SUCCESS
   \<and> main_runs_and_cleanup
        (example_world (respond_bad is_vkCreateShaderModule VK_ERROR_INITIALIZATION_FAILED))
        [vkCreateDevice 7 1 1] 1 3 5 8 1
      = (Exited EXIT_FAILURE,
         [vkCreateDevice 7 1 1, vkCreateShaderModule 8 4 [0x07230203, 0, 0, 0]])"
proof -
  let ?w = "example_world (respond_bad is_vkCreateShaderModule VK_ERROR_INITIALIZATION_FAILED)"
  let ?tr = "[vkCreateDevice 7 1 1]"
  let ?code = "[0x07230203, 0, 0, 0] :: u32 list"
  from RunComputeShader_failure_is_fatal_without_cleanup [of ?w ?tr 8 1 ?code 1 3 5]
  obtain m l p cp cb qu where
    steps: "\<forall>k\<in>checked_steps.
            (\<forall>j\<in>checked_steps. j < k \<longrightarrow> accepts ?w ?tr (run_calls 8 1 ?code m l p cp cb qu) j)
            \<and> \<not> accepts ?w ?tr (run_calls 8 1 ?code m l p cp cb qu) k \<longrightarrow>
              RunComputeShader ?w ?tr 8 1 ?code
              = (fst (respond ?w (?tr @ take k (run_calls 8 1 ?code m l p cp cb qu))),
                 ?tr @ take k (run_calls 8 1 ?code m l p cp cb qu))
              \<and> (readFile (files ?w) ''GLSLComputeShader.comp.spv'' = Inr ?code \<longrightarrow>
                    main_runs_and_cleanup ?w ?tr 1 3 5 8 1
                    = (Exited EXIT_FAILURE, ?tr @ take k (run_calls 8 1 ?code m l p cp cb qu)))"
    by blast
  have one: "1 \<in> checked_steps" "\<forall>j\<in>checked_steps. j < 1 \<longrightarrow>
               accepts ?w ?tr (run_calls 8 1 ?code m l p cp cb qu) j"
    by (simp_all add: checked_steps_def)
  have refused: "\<not> accepts ?w ?tr (run_calls 8 1 ?code m l p cp cb qu) 1"
    by (simp add: accepts_def run_calls_def example_world_def respond_bad_def
          VK_ERROR_INITIALIZATION_FAILED_def VK_SUCCESS_def)
  have first: "?tr @ take 1 (run_calls 8 1 ?code m l p cp cb qu)
               = [vkCreateDevice 7 1 1, vkCreateShaderModule 8 4 ?code]"
    by (simp add: run_calls_def)
  from steps one refused
  have "main_runs_and_cleanup ?w ?tr 1 3 5 8 1
          = (Exited EXIT_FAILURE, ?tr @ take 1 (run_calls 8 1 ?code m l p cp cb qu))"
    using example_run_module_fails(3) by blast
  with first example_run_module_fails show ?thesis by simp
qed

text \<open>
  Claim C5 as stated fails in its last part. On the example machine with that driver, \<^verbatim>\<open>main\<close>
  creates the instance, both sinks and the device, the first run fails at
  \<^verbatim>\<open>vkCreateShaderModule\<close>, and the process exits with \<^verbatim>\<open>EXIT_FAILURE\<close>: the history ends at
  the failing call and holds no cleanup call of the caller.
\<close>

theorem main_exits_without_cleanup:
  "main (example_world (respond_bad is_vkCreateShaderModule VK_ERROR_INITIALIZATION_FAILED))
   = (Exited EXIT_FAILURE,
      [vkCreateInstance [''VK_LAYER_KHRONOS_validation''] [''VK_EXT_debug_utils'', ''VK_EXT_debug_report'']
         [VK_VALIDATION_FEATURE_ENABLE_DEBUG_PRINTF_EXT],
       vkGetInstanceProcAddr 1 ''vkCreateDebugUtilsMessengerEXT'',
       pfn_vkCreateDebugUtilsMessengerEXT 1 0x1111 7 True,
       vkGetInstanceProcAddr 1 ''vkCreateDebugReportCallbackEXT'',
       pfn_vkCreateDebugReportCallbackEXT 1 0x1F True,
       vkEnumeratePhysicalDevices 1 False, vkEnumeratePhysicalDevices 1 True,
       vkCreateDevice 7 1 1,
       vkCreateShaderModule 8 4 [0x07230203, 0, 0, 0]])
   \<and> filter is_cleanup
        (snd (main (example_world
                (respond_bad is_vkCreateShaderModule VK_ERROR_INITIALIZATION_FAILED)))) = []"
  by code_simp

section \<open>Properties: reading a program binary\<close>

lemma bytes_of_word_of_bytes: "bytes_of_word (word_of_bytes a b c d) = [a, b, c, d]"
proof -
  have hi: "\<not> bit x (k + n)" if "8 \<le> k" for x :: u8 and k n
    using that bit_imp_le_length [of x "k + n"] by auto
  show ?thesis
    unfolding bytes_of_word_def word_of_bytes_def
    by (auto intro!: bit_word_eqI simp add: bit_simps hi)
qed

lemma storage_of_words_of_storage:
  "length bs mod 4 = 0 \<Longrightarrow> storage_of (words_of_storage bs) = bs"
proof (induction bs rule: words_of_storage.induct)
  case (1 a b c d bs)
  then show ?case by (simp add: storage_of_def bytes_of_word_of_bytes)
qed (auto simp: storage_of_def)

lemma length_words_of_storage: "length (words_of_storage bs) = length bs div 4"
  by (induction bs rule: words_of_storage.induct) auto

lemma replicate_4_plus: "replicate (4 + m) x = x # x # x # x # replicate m x"
  by (simp add: numeral_eq_Suc)

lemma storage_of_zeros: "storage_of (replicate n 0) = replicate (4 * n) 0"
  by (induction n) (auto simp: storage_of_def bytes_of_word_def replicate_4_plus)

lemma readFile_opened:
  assumes "fs filename = Some content"
  shows "\<exists>buffer. readFile fs filename = Inr buffer \<and> length buffer = length content
     \<and> storage_of buffer = content @ replicate (3 * length content) 0"
proof -
  let ?n = "length content"
  let ?st = "content @ drop ?n (replicate (4 * ?n) (0::u8))"
  have st: "?st = content @ replicate (3 * ?n) 0" by simp
  have len: "length ?st = 4 * ?n" by simp
  have r: "readFile fs filename = Inr (words_of_storage ?st)"
    using assms by (simp add: readFile_def read_into_def storage_of_zeros Let_def)
  have "length (words_of_storage ?st) = ?n"
    unfolding length_words_of_storage len by simp
  moreover have "storage_of (words_of_storage ?st) = ?st"
    by (rule storage_of_words_of_storage) (simp only: len, simp)
  ultimately show ?thesis using r st by simp
qed

lemma RunComputeShader_first_call:
  "hd (added tr (snd (RunComputeShader w tr device q code)))
   = vkCreateShaderModule device (length code) code"
proof -
  obtain result tr' where run: "RunComputeShader w tr device q code = (result, tr')"
    by (cases "RunComputeShader w tr device q code")
  then obtain m l p cp cb qu n where
    new: "added tr tr' = take n (run_calls device q code m l p cp cb qu)"
    and n: "n \<in> {1, 2, 3, 4, 5, 6, 9, 11, 12, 17}"
    by (rule RunComputeShader_cases)
  from n have "0 < n" by auto
  with new run show ?thesis by (simp add: run_calls_def)
qed

text \<open>
  Claim C8, as amended. For a file of \<open>N\<close> bytes that opens, \<^verbatim>\<open>readFile\<close> returns a buffer of
  \<open>N\<close> four-byte words (not \<open>N/4\<close>): the storage of the buffer is the file's \<open>N\<close> bytes followed
  by \<open>3N\<close> zero bytes, so its first \<open>N\<close> bytes are exactly the file. Module creation receives
  this buffer with the declared code size \<open>N\<close>, which is the number of elements of the buffer
  and thereby the number of bytes of the file. A file that does not open makes \<^verbatim>\<open>readFile\<close>
  throw.
\<close>

theorem readFile_buffer:
  "(fs filename = None \<longrightarrow> readFile fs filename = Inl (runtime_error ''Failed to open file!''))
   \<and> (fs filename = Some content \<longrightarrow>
        (\<exists>buffer. readFile fs filename = Inr buffer
           \<and> length buffer = length content
           \<and> storage_of buffer = content @ replicate (3 * length content) 0
           \<and> take (length content) (storage_of buffer) = content
           \<and> (\<forall>w tr device q.
                 hd (added tr (snd (RunComputeShader w tr device q buffer)))
                 = vkCreateShaderModule device (length content) buffer)))"
proof (intro conjI impI)
  assume "fs filename = None"
  then show "readFile fs filename = Inl (runtime_error ''Failed to open file!'')"
    by (simp add: readFile_def)
next
  assume "fs filename = Some content"
  from readFile_opened [of fs filename content, OF this] obtain buffer where
    b: "readFile fs filename = Inr buffer" "length buffer = length content"
       "storage_of buffer = content @ replicate (3 * length content) 0"
    by blast
  have "\<forall>w tr device q.
          hd (added tr (snd (RunComputeShader w tr device q buffer)))
          = vkCreateShaderModule device (length content) buffer"
    using RunComputeShader_first_call [where code = buffer] b(2) by simp
  with b show "\<exists>buffer. readFile fs filename = Inr buffer
           \<and> length buffer = length content
           \<and> storage_of buffer = content @ replicate (3 * length content) 0
           \<and> take (length content) (storage_of buffer) = content
           \<and> (\<forall>w tr device q.
                 hd (added tr (snd (RunComputeShader w tr device q buffer)))
                 = vkCreateShaderModule device (length content) buffer)"
    by simp
qed

text \<open>A file holding the four bytes of the SPIR-V magic number, and a name that is no file.\<close>

theorem readFile_buffer_witness:
  "readFile [''a.spv'' \<mapsto> [0x03, 0x02, 0x23, 0x07]] ''a.spv'' = Inr [0x07230203, 0, 0, 0]
   \<and> storage_of [0x07230203, 0, 0, 0]
      = [0x03, 0x02, 0x23, 0x07] @ replicate (3 * length [0x03, 0x02, 0x23, 0x07 :: u8]) 0
   \<and> readFile [''a.spv'' \<mapsto> [0x03, 0x02, 0x23, 0x07]] ''b.spv''
      = Inl (runtime_error ''Failed to open file!'')"
proof -
  have some: "[''a.spv'' \<mapsto> [0x03, 0x02, 0x23, 0x07 :: u8]] ''a.spv'' = Some [0x03, 0x02, 0x23, 0x07]"
    and none: "[''a.spv'' \<mapsto> [0x03, 0x02, 0x23, 0x07 :: u8]] ''b.spv'' = None"
    by simp_all
  have r: "readFile [''a.spv'' \<mapsto> [0x03, 0x02, 0x23, 0x07]] ''a.spv'' = Inr [0x07230203, 0, 0, 0]"
    by code_simp
  from readFile_buffer [of "[''a.spv'' \<mapsto> [0x03, 0x02, 0x23, 0x07]]" "''a.spv''"
         "[0x03, 0x02, 0x23, 0x07]"] some r
  have "storage_of [0x07230203, 0, 0, 0]
      = [0x03, 0x02, 0x23, 0x07] @ replicate (3 * length [0x03, 0x02, 0x23, 0x07 :: u8]) 0"
    by auto
  moreover
  from readFile_buffer [of "[''a.spv'' \<mapsto> [0x03, 0x02, 0x23, 0x07]]" "''b.spv''"] none
  have "readFile [''a.spv'' \<mapsto> [0x03, 0x02, 0x23, 0x07]] ''b.spv''
      = Inl (runtime_error ''Failed to open file!'')"
    by blast
  ultimately show ?thesis using r by blast
qed

text \<open>
  Claim C8 as stated fails on the size of the buffer: for a file of four bytes the buffer has
  four words, not the one word that four bytes rounded up to words would take, and its storage
  is sixteen bytes, not the file's four.
\<close>

theorem readFile_buffer_is_oversized:
  "readFile [''a.spv'' \<mapsto> [0x03, 0x02, 0x23, 0x07]] ''a.spv'' = Inr [0x07230203, 0, 0, 0]
   \<and> length [0x07230203, 0, 0, 0 :: u32] \<noteq> (length [0x03, 0x02, 0x23, 0x07 :: u8] + 3) div 4
   \<and> storage_of [0x07230203, 0, 0, 0] \<noteq> [0x03, 0x02, 0x23, 0x07]"
  by code_simp

section \<open>Properties: registering and unregistering the sinks\<close>

text \<open>
  Claim C10, as amended. With a null instance or a null out-pointer, \<^verbatim>\<open>CreateDebugMessenger\<close>
  returns \<^verbatim>\<open>VK_ERROR_UNKNOWN\<close> and leaves the history and the slot as they were: it resolves
  nothing and calls nothing. \<^verbatim>\<open>CreateReportCallback\<close> has no such check. On the same
  arguments it always resolves the creation entry point by name; when the pointer it gets is
  not null it calls through it with those arguments and returns the driver's answer, and when
  the pointer is null it returns \<^verbatim>\<open>VK_ERROR_EXTENSION_NOT_PRESENT\<close> without calling anything.
\<close>

theorem CreateDebugMessenger_null_arguments:
  assumes "instance = 0 \<or> out = None"
  shows "CreateDebugMessenger w tr instance out = (VK_ERROR_UNKNOWN, out, tr)
    \<and> take (length tr + 1) (snd (snd (CreateReportCallback w tr instance out)))
        = tr @ [vkGetInstanceProcAddr instance ''vkCreateDebugReportCallbackEXT'']
    \<and> (snd (respond w (tr @ [vkGetInstanceProcAddr instance ''vkCreateDebugReportCallbackEXT''])) \<noteq> 0
          \<longrightarrow>
          CreateReportCallback w tr instance out
          = (fst (respond w (tr @ [vkGetInstanceProcAddr instance ''vkCreateDebugReportCallbackEXT'',
                                  pfn_vkCreateDebugReportCallbackEXT instance 0x1F (out \<noteq> None)])),
             map_option
               (\<lambda>_. snd (respond w (tr @ [vkGetInstanceProcAddr instance ''vkCreateDebugReportCallbackEXT'',
                                  pfn_vkCreateDebugReportCallbackEXT instance 0x1F (out \<noteq> None)])))
               out,
             tr @ [vkGetInstanceProcAddr instance ''vkCreateDebugReportCallbackEXT'',
                   pfn_vkCreateDebugReportCallbackEXT instance 0x1F (out \<noteq> None)]))
    \<and> (snd (respond w (tr @ [vkGetInstanceProcAddr instance ''vkCreateDebugReportCallbackEXT''])) = 0
          \<longrightarrow>
          CreateReportCallback w tr instance out
          = (VK_ERROR_EXTENSION_NOT_PRESENT, out,
             tr @ [vkGetInstanceProcAddr instance ''vkCreateDebugReportCallbackEXT'']))"
proof -
  have flags: "VK_DEBUG_REPORT_DEBUG_BIT_EXT OR VK_DEBUG_REPORT_ERROR_BIT_EXT
            OR VK_DEBUG_REPORT_PERFORMANCE_WARNING_BIT_EXT OR VK_DEBUG_REPORT_WARNING_BIT_EXT
            OR VK_DEBUG_REPORT_INFORMATION_BIT_EXT = 0x1F"
    by (simp add: VK_DEBUG_REPORT_DEBUG_BIT_EXT_def VK_DEBUG_REPORT_ERROR_BIT_EXT_def
          VK_DEBUG_REPORT_PERFORMANCE_WARNING_BIT_EXT_def VK_DEBUG_REPORT_WARNING_BIT_EXT_def
          VK_DEBUG_REPORT_INFORMATION_BIT_EXT_def)
  from assms have "CreateDebugMessenger w tr instance out = (VK_ERROR_UNKNOWN, out, tr)"
    by (auto simp: CreateDebugMessenger_def)
  then show ?thesis
    by (simp add: CreateReportCallback_def Let_def flags split: prod.splits)
qed

text \<open>
  A null instance with a loader that resolves the name, and a non-null instance with a null
  out-pointer.
\<close>

theorem CreateDebugMessenger_null_arguments_witness:
  "CreateDebugMessenger (example_world respond_ok) [] 0 (Some 0) = (VK_ERROR_UNKNOWN, Some 0, [])
   \<and> CreateReportCallback (example_world respond_ok) [] 0 (Some 0)
      = (VK_SUCCESS, Some 2,
         [vkGetInstanceProcAddr 0 ''vkCreateDebugReportCallbackEXT'',
          pfn_vkCreateDebugReportCallbackEXT 0 0x1F True])
   \<and> CreateDebugMessenger (example_world respond_ok) [] 1 None = (VK_ERROR_UNKNOWN, None, [])"
proof -
  have r: "CreateReportCallback (example_world respond_ok) [] 0 (Some 0)
      = (VK_SUCCESS, Some 2,
         [vkGetInstanceProcAddr 0 ''vkCreateDebugReportCallbackEXT'',
          pfn_vkCreateDebugReportCallbackEXT 0 0x1F True])"
    by code_simp
  have a: "(0::nat) = 0 \<or> Some (0::nat) = None" and b: "(1::nat) = 0 \<or> (None :: nat option) = None"
    by simp_all
  from CreateDebugMessenger_null_arguments [OF a, of "example_world respond_ok" "[]"]
       CreateDebugMessenger_null_arguments [OF b, of "example_world respond_ok" "[]"] r
  show ?thesis by blast
qed

text \<open>
  Claim C10 as stated fails in its last part. With a null instance and a loader that resolves
  nothing (what \<^verbatim>\<open>vkGetInstanceProcAddr\<close> does for this name without an instance),
  \<^verbatim>\<open>CreateReportCallback\<close> resolves the name but calls no entry point: it returns
  \<^verbatim>\<open>VK_ERROR_EXTENSION_NOT_PRESENT\<close>.
\<close>

theorem CreateReportCallback_unresolved_is_not_invoked:
  "CreateReportCallback (example_world (respond_bad is_vkGetInstanceProcAddr VK_SUCCESS)) [] 0 None
   = (VK_ERROR_EXTENSION_NOT_PRESENT, None,
      [vkGetInstanceProcAddr 0 ''vkCreateDebugReportCallbackEXT''])
   \<and> filter is_pfn [vkGetInstanceProcAddr 0 ''vkCreateDebugReportCallbackEXT''] = []"
  by code_simp

text \<open>
  What the four functions do with an entry point that does not resolve, and what the destroy
  functions do with a null handle.
\<close>

lemma Create_unresolved:
  "instance \<noteq> 0 \<Longrightarrow>
     snd (respond w (tr @ [vkGetInstanceProcAddr instance ''vkCreateDebugUtilsMessengerEXT''])) = 0 \<Longrightarrow>
     CreateDebugMessenger w tr instance (Some h)
     = (VK_ERROR_EXTENSION_NOT_PRESENT, Some h,
        tr @ [vkGetInstanceProcAddr instance ''vkCreateDebugUtilsMessengerEXT''])"
  "snd (respond w (tr @ [vkGetInstanceProcAddr instance ''vkCreateDebugReportCallbackEXT''])) = 0 \<Longrightarrow>
     CreateReportCallback w tr instance out
     = (VK_ERROR_EXTENSION_NOT_PRESENT, out,
        tr @ [vkGetInstanceProcAddr instance ''vkCreateDebugReportCallbackEXT''])"
  by (simp_all add: CreateDebugMessenger_def CreateReportCallback_def Let_def)

lemma Destroy_null_handles:
  "instance = 0 \<or> sink = 0 \<Longrightarrow> DestroyDebugMessenger w tr instance sink = Inr tr"
  "instance = 0 \<or> sink = 0 \<Longrightarrow> DestroyReportCallback w tr instance sink = Inr tr"
  by (auto simp: DestroyDebugMessenger_def DestroyReportCallback_def)

lemma Destroy_unresolved:
  "instance \<noteq> 0 \<Longrightarrow> sink \<noteq> 0 \<Longrightarrow>
     snd (respond w (tr @ [vkGetInstanceProcAddr instance ''vkDestroyDebugUtilsMessengerEXT''])) = 0 \<Longrightarrow>
     DestroyDebugMessenger w tr instance sink = Inl NullFunctionCall"
  "instance \<noteq> 0 \<Longrightarrow> sink \<noteq> 0 \<Longrightarrow>
     snd (respond w (tr @ [vkGetInstanceProcAddr instance ''vkDestroyDebugReportCallbackEXT''])) = 0 \<Longrightarrow>
     DestroyReportCallback w tr instance sink = Inl NullFunctionCall"
  by (simp_all add: DestroyDebugMessenger_def DestroyReportCallback_def Let_def)

text \<open>
  Claim C9. At registration, an entry point that does not resolve makes either creation
  function return \<^verbatim>\<open>VK_ERROR_EXTENSION_NOT_PRESENT\<close> (\<open>Create_unresolved\<close>), which is fatal in
  \<^verbatim>\<open>main\<close>; at teardown, a null instance or a null sink handle makes either destroy function
  return without a call (\<open>Destroy_null_handles\<close>). The claim's remaining part does not hold of
  the program: the destroy functions call through the pointer \<^verbatim>\<open>vkGetInstanceProcAddr\<close>
  returns without testing it (\<open>Destroy_unresolved\<close>). Here, on the example machine with a
  loader that resolves nothing, both destroy functions, given non-null handles, call through
  a null pointer, where the creation function reports the missing entry point and a null sink
  handle is a no-op.
\<close>

theorem Destroy_calls_unresolved_entry_point:
  "DestroyDebugMessenger (example_world (respond_bad is_vkGetInstanceProcAddr VK_SUCCESS)) [] 1 3
   = Inl NullFunctionCall
   \<and> DestroyReportCallback (example_world (respond_bad is_vkGetInstanceProcAddr VK_SUCCESS)) [] 1 5
     = Inl NullFunctionCall
   \<and> CreateDebugMessenger (example_world (respond_bad is_vkGetInstanceProcAddr VK_SUCCESS)) [] 1 (Some 0)
     = (VK_ERROR_EXTENSION_NOT_PRESENT, Some 0,
        [vkGetInstanceProcAddr 1 ''vkCreateDebugUtilsMessengerEXT''])
   \<and> DestroyDebugMessenger (example_world (respond_bad is_vkGetInstanceProcAddr VK_SUCCESS)) [] 1 0
     = Inr []"
  by code_simp

end
